theory Spec2Isabelle
  imports Complex_Main
begin

section \<open>Python values\<close>

text \<open>
  A Python \<open>str\<close> is a sequence of Unicode code points; slicing (\<open>s[:80]\<close>), equality and
  truthiness (\<open>if s:\<close>) all work on code points. A string is therefore a list of code
  points, and \<open>s[:n]\<close> is \<open>take n s\<close>.
\<close>

type_synonym pystr = "nat list"

definition ascii :: "string \<Rightarrow> pystr" where
  "ascii s = map of_char s"

text \<open>\<open>str(i)\<close> for an integer, as an f-string renders \<open>{attempt}\<close>.\<close>

fun digits :: "nat \<Rightarrow> pystr" where
  "digits n = (if n < 10 then [48 + n] else digits (n div 10) @ [48 + n mod 10])"

declare digits.simps [simp del]

definition str_int :: "int \<Rightarrow> pystr" where
  "str_int i = (if i < 0 then 45 # digits (nat (- i)) else digits (nat i))"

text \<open>\<open>str.strip()\<close> removes leading and trailing whitespace code points.\<close>

definition isspace :: "nat \<Rightarrow> bool" where
  "isspace c \<longleftrightarrow>
     (9 \<le> c \<and> c \<le> 13) \<or> (28 \<le> c \<and> c \<le> 32) \<or> c = 133 \<or> c = 160 \<or> c = 5760 \<or>
     (8192 \<le> c \<and> c \<le> 8202) \<or> c = 8232 \<or> c = 8233 \<or> c = 8239 \<or> c = 8287 \<or> c = 12288"

definition strip :: "pystr \<Rightarrow> pystr" where
  "strip s = rev (dropWhile isspace (rev (dropWhile isspace s)))"

text \<open>
  Exceptions are values. \<open>ModelBehaviorError\<close> is the malformed-structured-output failure
  of the agents library; \<open>OtherFailure\<close> stands for every exception that is not a
  \<open>ModelBehaviorError\<close> and that the workflow does not raise by its own arithmetic
  (network, service, end of input, a value that cannot be formatted). \<open>TypeError\<close> is
  what \<open>raise None\<close> gives, \<open>IndexError\<close> what \<open>[][-1]\<close> gives, and the last two are
  what \<open>a / b\<close> on integers can give.
\<close>

datatype error =
  ModelBehaviorError pystr | OtherFailure pystr | TypeError | IndexError
  | ZeroDivisionError | OverflowError

text \<open>
  \<open>a / b\<close> on two integers. It raises on a zero divisor, and it raises when the correctly
  rounded quotient is no finite double: when its magnitude reaches \<open>2^1024 - 2^970\<close>,
  half way between the largest double and \<open>2^1024\<close>. The quotient is kept exact;
  rounding it to a double, and to the digits shown, is the business of the format.
\<close>

definition true_div :: "int \<Rightarrow> int \<Rightarrow> error + real" where
  "true_div a b =
     (if b = 0 then Inl ZeroDivisionError
      else if 2 ^ 1024 - 2 ^ 970 \<le> \<bar>real_of_int a / real_of_int b\<bar> then Inl OverflowError
      else Inr (real_of_int a / real_of_int b))"


section \<open>Schemas (models/schemas.py)\<close>

record Finding =
  content :: pystr
  source :: pystr

record Evidence =
  title :: pystr
  url :: pystr
  summary :: pystr

record VerifiedEvidence =
  title :: pystr
  url :: pystr
  original_url :: pystr
  summary :: pystr
  status :: pystr
  verification_note :: pystr

record RemovedEvidence =
  title :: pystr
  original_url :: pystr
  reason :: pystr

record VerifiedFinding =
  content :: pystr
  source :: pystr
  source_url :: pystr
  confidence :: pystr

record RemovedFinding =
  content :: pystr
  source :: pystr
  reason :: pystr

text \<open>
  \<open>reliability_score\<close> is a float that the schema constrains to \<open>[0, 1]\<close>; every such
  float is a real number, and the workflow only copies it.
\<close>

record FactCheckResultOutput =
  verified_evidences :: "VerifiedEvidence list"
  removed_evidences :: "RemovedEvidence list"
  verified_findings :: "VerifiedFinding list"
  removed_findings :: "RemovedFinding list"
  verification_summary :: pystr
  total_verified :: int
  total_removed :: int
  reliability_score :: real

text \<open>The \<open>Field(ge=0.0, le=1.0)\<close> constraint on \<open>reliability_score\<close>.\<close>

definition valid_FactCheckResultOutput :: "FactCheckResultOutput \<Rightarrow> bool" where
  "valid_FactCheckResultOutput fc \<longleftrightarrow> 0 \<le> reliability_score fc \<and> reliability_score fc \<le> 1"

record SearchPlanOutput =
  objective :: pystr
  research_areas :: "pystr list"
  search_keywords :: "(pystr \<times> pystr list) list"
  priority_order :: "pystr list"
  research_strategy :: pystr
  expected_outcomes :: "pystr list"

record ResearchResultOutput =
  theme :: pystr
  plan_used :: "SearchPlanOutput option"
  findings :: "Finding list"
  evidence :: "Evidence list"
  research_depth_analysis :: pystr
  interconnections :: "pystr list"
  summary :: pystr
  iteration_number :: int

record EvaluationOutput =
  iteration_number :: int
  objective_achievement_score :: int
  coverage_score :: int
  depth_insight_score :: int
  actionability_score :: int
  credibility_score :: int
  quantitative_score :: int
  coverage_gaps :: "pystr list"
  overall_quality_score :: int
  should_refine :: bool
  refinement_strategy :: "pystr option"
  refined_plan :: "SearchPlanOutput option"
  expert_observations :: pystr


section \<open>The retrying call wrapper (workflows/research.py, \<open>_run_with_retry\<close>)\<close>

definition MAX_PARSE_RETRIES :: int where
  "MAX_PARSE_RETRIES = 2"

text \<open>
  The text appended to the prompt on a retry: the f-string of the source, whose header
  carries \<open>{attempt}/{max_retries}\<close> and whose instructions are constant.
\<close>

definition amendment_head :: pystr where
  "amendment_head = [10, 10, 12304, 9888, 65039, 32, 12522, 12488, 12521, 12452, 32]"

definition amendment_tail :: pystr where
  "amendment_tail =
    [32, 45, 32, 20986, 21147, 37327, 21066, 28187, 25351, 31034, 12305, 10, 21069, 22238,
     12398, 20986, 21147, 12364, 12488, 12540, 12463, 12531, 21046, 38480, 12391, 20999, 12426,
     35440, 12417, 12425, 12428, 12289, 74, 83, 79, 78, 12364, 22730, 12428, 12414, 12375,
     12383, 12290, 10, 20197, 19979, 12434, 21427, 23432, 12375, 12289, 24517, 12378, 23436,
     20840, 12394, 74, 83, 79, 78, 12434, 20986, 21147, 12375, 12390, 12367, 12384, 12373,
     12356, 58, 10, 45, 32, 102, 105, 110, 100, 105, 110, 103, 115, 32, 12399, 26368, 22823,
     32, 56, 32, 20214, 12395, 21046, 38480, 12377, 12427, 65288, 37325, 35201, 12394, 12418,
     12398, 12384, 12369, 21427, 36984, 65289, 10, 45, 32, 101, 118, 105, 100, 101, 110, 99,
     101, 32, 12399, 26368, 22823, 32, 53, 32, 20214, 12395, 21046, 38480, 12377, 12427, 65288,
     26368, 12418, 20449, 38972, 24615, 12398, 39640, 12356, 12418, 12398, 65289, 10, 45, 32,
     115, 117, 109, 109, 97, 114, 121, 32, 12399, 32, 50, 48, 48, 32, 23383, 20197, 20869,
     12395, 12377, 12427, 10, 45, 32, 114, 101, 115, 101, 97, 114, 99, 104, 95, 100, 101, 112,
     116, 104, 95, 97, 110, 97, 108, 121, 115, 105, 115, 44, 32, 105, 110, 116, 101, 114, 99,
     111, 110, 110, 101, 99, 116, 105, 111, 110, 115, 32, 12399, 31777, 28500, 12395, 65288,
     21508, 32, 49, 48, 48, 32, 23383, 20197, 20869, 65289, 10, 45, 32, 112, 108, 97, 110, 95,
     117, 115, 101, 100, 32, 12399, 32, 111, 98, 106, 101, 99, 116, 105, 118, 101, 32, 12398,
     12415, 35352, 36617, 12375, 20182, 12399, 30465, 30053, 21487, 33021, 10, 45, 32, 23436,
     20840, 12394, 74, 83, 79, 78, 27083, 36896, 65288, 12377, 12409, 12390, 12398, 25324,
     24359, 12364, 38281, 12376, 12390, 12356, 12427, 65289, 12434, 20778, 20808, 12377, 12427,
     12371, 12392, 10]"

definition amendment :: "int \<Rightarrow> int \<Rightarrow> pystr" where
  "amendment attempt max_retries =
     amendment_head @ str_int attempt @ [47] @ str_int max_retries @ amendment_tail"

text \<open>
  \<open>Runner.run(agent, prompt)\<close> followed by \<open>final_output_as\<close> is a call into the outside
  world: it takes the prompt and the world, and gives a parsed output or an exception,
  and the world after the call. The \<open>for attempt in range(1 + max_retries)\<close> loop runs
  over the list of attempts; \<open>last_error\<close> starts as \<open>None\<close>, and \<open>raise last_error\<close>
  after a loop that never ran is a \<open>TypeError\<close>. Printing is left out, and with it the
  parameters \<open>agent_name\<close> and \<open>verbose\<close>; the agent and its output type are the
  invoker. The function is \<open>run_with_retry\<close> here, without the leading underscore.
\<close>

type_synonym ('w, 'a) invoker = "pystr \<Rightarrow> 'w \<Rightarrow> (error + 'a) \<times> 'w"

fun retry_attempts ::
  "('w, 'a) invoker \<Rightarrow> pystr \<Rightarrow> int \<Rightarrow> int list \<Rightarrow> error option \<Rightarrow> 'w \<Rightarrow> (error + 'a) \<times> 'w"
where
  "retry_attempts run prompt max_retries [] last_error w =
     (case last_error of None \<Rightarrow> (Inl TypeError, w) | Some e \<Rightarrow> (Inl e, w))"
| "retry_attempts run prompt max_retries (attempt # rest) last_error w =
     (let current_prompt =
            (if attempt = 0 then prompt else prompt @ amendment attempt max_retries)
      in case run current_prompt w of
           (Inr output, w') \<Rightarrow> (Inr output, w')
         | (Inl (ModelBehaviorError m), w') \<Rightarrow>
             retry_attempts run prompt max_retries rest (Some (ModelBehaviorError m)) w'
         | (Inl e, w') \<Rightarrow> (Inl e, w'))"

definition run_with_retry :: "('w, 'a) invoker \<Rightarrow> pystr \<Rightarrow> int \<Rightarrow> 'w \<Rightarrow> (error + 'a) \<times> 'w" where
  "run_with_retry run prompt max_retries w =
     retry_attempts run prompt max_retries [0..max_retries] None w"

text \<open>
  An invoker that also records every prompt it is called with, in call order. It is
  used to count the calls the wrapper makes.
\<close>

definition logged :: "('w, 'a) invoker \<Rightarrow> ('w \<times> pystr list, 'a) invoker" where
  "logged run prompt wl =
     (case run prompt (fst wl) of (r, w') \<Rightarrow> (r, (w', snd wl @ [prompt])))"

text \<open>
  What an invoker does on a given sequence of calls: called with these prompts one after
  the other, starting in this world, it raises a malformed-structured-output failure
  every time. An invoker that would answer a further call, or another prompt, may
  still satisfy this.
\<close>

fun raises_malformed_on_each :: "('w, 'a) invoker \<Rightarrow> pystr list \<Rightarrow> 'w \<Rightarrow> bool" where
  "raises_malformed_on_each run [] w = True"
| "raises_malformed_on_each run (p # ps) w =
     (case run p w of
        (Inl (ModelBehaviorError m), w') \<Rightarrow> raises_malformed_on_each run ps w'
      | _ \<Rightarrow> False)"


section \<open>The iterative research workflow (workflows/research.py, \<open>run_agentic_research\<close>)\<close>

text \<open>
  The entry appended to \<open>fact_check_history\<close> (a dict in the source) and the entry
  appended to \<open>raw_results\<close> (a dict holding copies of the researcher's findings and
  evidence, field by field).
\<close>

record FactCheckEntry =
  iteration :: int
  verified :: int
  removed :: int
  reliability :: real
  removed_reasons :: "pystr list"
  summary :: pystr

record RawResult =
  iteration :: int
  findings :: "Finding list"
  evidence :: "Evidence list"
  summary :: pystr

text \<open>
  The function writes into one kind of object that it got from outside and then keeps:
  \<open>evaluation.iteration_number = iteration\<close> changes the object the evaluator call
  returned, and \<open>evaluations.append(evaluation)\<close> stores that same object. An evaluator
  that returns one object several times therefore has it in the list several times,
  with the number written last. So evaluations are references into a store of
  \<open>EvaluationOutput\<close> objects. The store belongs to the world: the outside may create
  objects, return old ones and change them. The other write, to the fields
  \<open>findings\<close> and \<open>evidence\<close> of the last researcher output, happens once, after the
  loop, on the object that is returned, and nothing reads that object afterwards.
  Inside the loop the function writes to no researcher output, verdict, plan, finding
  or evidence item, and it reads each researcher output and verdict only in the
  iteration that received it. These are values: the model takes a call not to change
  an output, a verdict or a plan that an earlier call returned.
\<close>

type_synonym ref = nat

record 'x world =
  evaluation_objects :: "ref \<Rightarrow> EvaluationOutput"
  outside :: 'x

definition set_iteration_number :: "ref \<Rightarrow> int \<Rightarrow> 'x world \<Rightarrow> 'x world" where
  "set_iteration_number r i w =
     w\<lparr>evaluation_objects :=
         (evaluation_objects w)(r := (evaluation_objects w r)\<lparr>EvaluationOutput.iteration_number := i\<rparr>)\<rparr>"

text \<open>The local variables of the function that live across iterations.\<close>

record loop_state =
  current_plan :: SearchPlanOutput
  evaluations :: "ref list"
  current_result :: "ResearchResultOutput option"
  raw_results :: "RawResult list"
  accepted_findings :: "Finding list"
  accepted_evidence :: "Evidence list"
  fact_check_history :: "FactCheckEntry list"

text \<open>The objects in \<open>evaluations\<close>, as they are read in a given world.\<close>

definition evaluation_values :: "'x world \<Rightarrow> loop_state \<Rightarrow> EvaluationOutput list" where
  "evaluation_values w s = map (evaluation_objects w) (evaluations s)"

text \<open>
  Record fields take the names \<open>theme\<close>, \<open>iteration\<close> and \<open>current_result\<close>, so the
  function parameter \<open>theme\<close> is written \<open>th\<close>, the loop variable \<open>iteration\<close> is
  written \<open>i\<close>, and a researcher output passed as an argument is \<open>result\<close>.

  The four agents and the console are the outside world. Each agent is an invoker;
  the evaluator returns a reference; \<open>input\<close> reads one line and may raise.
\<close>

record 'x agents =
  planner :: "('x world, SearchPlanOutput) invoker"
  researcher :: "('x world, ResearchResultOutput) invoker"
  fact_checker :: "('x world, FactCheckResultOutput) invoker"
  evaluator :: "('x world, ref) invoker"
  input :: "'x world \<Rightarrow> (error + pystr) \<times> 'x world"

text \<open>
  The prompts are f-strings over Japanese prose, with number formatting (\<open>:.1%\<close>) and
  \<open>json.dumps\<close>. Their text plays no part in the control flow, so each template is a
  parameter that receives every value the source's f-string reads. Evaluating an
  f-string can raise (formatting a number can), so a template gives a prompt or an
  exception. The evaluator prompt is built in three steps: the text up to the
  fact-check summary (\<open>evaluator_context\<close>, source lines 547 to 570), then the division
  for the removal rate (line 572, which is arithmetic of the function itself and is
  written out in \<open>removal_rate_of\<close>), then the rest, which receives both.
\<close>

record templates =
  planner_prompt :: "pystr \<Rightarrow> error + pystr"
  refinement_prompt :: "SearchPlanOutput \<Rightarrow> pystr \<Rightarrow> error + pystr"
  researcher_prompt ::
    "pystr \<Rightarrow> int \<Rightarrow> SearchPlanOutput \<Rightarrow> Finding list \<Rightarrow> Evidence list \<Rightarrow>
     FactCheckEntry list \<Rightarrow> EvaluationOutput list \<Rightarrow> error + pystr"
  fact_check_prompt :: "ResearchResultOutput \<Rightarrow> error + pystr"
  evaluator_context :: "FactCheckEntry list \<Rightarrow> EvaluationOutput list \<Rightarrow> error + pystr"
  evaluator_prompt ::
    "pystr \<Rightarrow> SearchPlanOutput \<Rightarrow> ResearchResultOutput \<Rightarrow> FactCheckEntry list \<Rightarrow>
     EvaluationOutput list \<Rightarrow> int \<Rightarrow> int \<Rightarrow> pystr \<Rightarrow> real option \<Rightarrow> error + pystr"

text \<open>Build a prompt, then make the wrapped call with the default number of retries.\<close>

definition prompt_and_call ::
  "error + pystr \<Rightarrow> ('w, 'a) invoker \<Rightarrow> 'w \<Rightarrow> (error + 'a) \<times> 'w"
where
  "prompt_and_call built run w =
     (case built of
        Inl e \<Rightarrow> (Inl e, w)
      | Inr prompt \<Rightarrow> run_with_retry run prompt MAX_PARSE_RETRIES w)"

subsection \<open>Planning\<close>

definition planning ::
  "templates \<Rightarrow> 'x agents \<Rightarrow> pystr \<Rightarrow> 'x world \<Rightarrow> (error + SearchPlanOutput) \<times> 'x world"
where
  "planning T A th w =
     (case prompt_and_call (planner_prompt T th) (planner A) w of
        (Inl e, w1) \<Rightarrow> (Inl e, w1)
      | (Inr plan, w1) \<Rightarrow>
          (case input A w1 of
             (Inl e, w2) \<Rightarrow> (Inl e, w2)
           | (Inr line, w2) \<Rightarrow>
               (let user_input = strip line
                in if user_input \<noteq> []
                   then prompt_and_call (refinement_prompt T plan user_input) (planner A) w2
                   else (Inr plan, w2))))"

subsection \<open>Recording a fact-check result\<close>

definition removed_reasons_of :: "FactCheckResultOutput \<Rightarrow> pystr list" where
  "removed_reasons_of fact_check =
     map (\<lambda>rf. take 50 (RemovedFinding.content rf) @ [46, 46, 46, 32, 8594, 32]
                @ RemovedFinding.reason rf)
         (removed_findings fact_check)
     @ map (\<lambda>re. ascii ''URL: '' @ RemovedEvidence.original_url re @ [32, 8594, 32]
                  @ RemovedEvidence.reason re)
           (removed_evidences fact_check)"

definition verified_contents_of :: "FactCheckResultOutput \<Rightarrow> pystr set" where
  "verified_contents_of fact_check =
     set (map (\<lambda>vf. take 80 (VerifiedFinding.content vf)) (verified_findings fact_check))"

text \<open>One round of the loop over \<open>verified_evidences\<close> that fills \<open>verified_urls\<close>.\<close>

definition add_verified_url :: "pystr set \<Rightarrow> VerifiedEvidence \<Rightarrow> pystr set" where
  "add_verified_url verified_urls ve =
     (let original = (if VerifiedEvidence.original_url ve \<noteq> []
                      then VerifiedEvidence.original_url ve else VerifiedEvidence.url ve);
          urls1 = (if original \<noteq> [] then insert original verified_urls else verified_urls)
      in if VerifiedEvidence.url ve \<noteq> [] then insert (VerifiedEvidence.url ve) urls1 else urls1)"

definition verified_urls_of :: "FactCheckResultOutput \<Rightarrow> pystr set" where
  "verified_urls_of fact_check = foldl add_verified_url {} (verified_evidences fact_check)"

text \<open>
  The two accumulation loops. The first argument is what is left of
  \<open>iteration_accepted_findings\<close> (\<open>iteration_accepted_evidence\<close>), then the pool and the
  key set \<open>existing_contents\<close> (\<open>existing_urls\<close>), both updated on an append.
\<close>

fun accumulate_findings :: "Finding list \<Rightarrow> Finding list \<Rightarrow> pystr set \<Rightarrow> Finding list" where
  "accumulate_findings [] accepted existing_contents = accepted"
| "accumulate_findings (f # fs) accepted existing_contents =
     (if take 80 (Finding.content f) \<notin> existing_contents
      then accumulate_findings fs (accepted @ [f])
             (insert (take 80 (Finding.content f)) existing_contents)
      else accumulate_findings fs accepted existing_contents)"

fun accumulate_evidence :: "Evidence list \<Rightarrow> Evidence list \<Rightarrow> pystr set \<Rightarrow> Evidence list" where
  "accumulate_evidence [] accepted existing_urls = accepted"
| "accumulate_evidence (e # es) accepted existing_urls =
     (if Evidence.url e \<noteq> [] \<and> Evidence.url e \<notin> existing_urls
      then accumulate_evidence es (accepted @ [e]) (insert (Evidence.url e) existing_urls)
      else accumulate_evidence es accepted existing_urls)"

text \<open>
  Merging into the pools as the source does it: the key set is computed from the pool,
  then the loop runs.
\<close>

definition merge_findings :: "Finding list \<Rightarrow> Finding list \<Rightarrow> Finding list" where
  "merge_findings accepted iteration_accepted_findings =
     accumulate_findings iteration_accepted_findings accepted
       ((\<lambda>f. take 80 (Finding.content f)) ` set accepted)"

definition merge_evidence :: "Evidence list \<Rightarrow> Evidence list \<Rightarrow> Evidence list" where
  "merge_evidence accepted iteration_accepted_evidence =
     accumulate_evidence iteration_accepted_evidence accepted (Evidence.url ` set accepted)"

definition skipped_summary :: pystr where
  "skipped_summary =
     [12501, 12449, 12463, 12488, 12481, 12455, 12483, 12463, 12434, 12473, 12461, 12483,
      12503, 65288, 101, 118, 105, 100, 101, 110, 99, 101, 47, 102, 105, 110, 100, 105, 110,
      103, 115, 12364, 31354, 65289]"

text \<open>
  The branch \<open>if fact_check is not None: ... else: ...\<close>: the history entry, the
  selection from the researcher's own output, and the merge into the pools.
\<close>

definition record_fact_check ::
  "int \<Rightarrow> ResearchResultOutput \<Rightarrow> FactCheckResultOutput option \<Rightarrow> loop_state \<Rightarrow> loop_state"
where
  "record_fact_check i result fact_check s =
     (case fact_check of
        Some fc \<Rightarrow>
          (let verified_contents = verified_contents_of fc;
               verified_urls = verified_urls_of fc;
               iteration_accepted_findings =
                 filter (\<lambda>f. take 80 (Finding.content f) \<in> verified_contents)
                   (ResearchResultOutput.findings result);
               iteration_accepted_evidence =
                 filter (\<lambda>e. Evidence.url e \<in> verified_urls)
                   (ResearchResultOutput.evidence result)
           in s\<lparr>fact_check_history := fact_check_history s @
                   [\<lparr>FactCheckEntry.iteration = i,
                     verified = total_verified fc,
                     removed = total_removed fc,
                     reliability = reliability_score fc,
                     removed_reasons = removed_reasons_of fc,
                     summary = verification_summary fc\<rparr>],
                 accepted_findings := merge_findings (accepted_findings s) iteration_accepted_findings,
                 accepted_evidence := merge_evidence (accepted_evidence s) iteration_accepted_evidence\<rparr>)
      | None \<Rightarrow>
          s\<lparr>fact_check_history := fact_check_history s @
              [\<lparr>FactCheckEntry.iteration = i,
                verified = 0,
                removed = 0,
                reliability = 0,
                removed_reasons = [],
                summary = skipped_summary\<rparr>]\<rparr>)"

text \<open>The fact-check gate: no call when the researcher returned nothing to check.\<close>

definition fact_check_step ::
  "templates \<Rightarrow> 'x agents \<Rightarrow> ResearchResultOutput \<Rightarrow> 'x world
   \<Rightarrow> (error + FactCheckResultOutput option) \<times> 'x world"
where
  "fact_check_step T A result w =
     (let has_evidence = (ResearchResultOutput.evidence result \<noteq> []);
          has_findings = (ResearchResultOutput.findings result \<noteq> [])
      in if \<not> has_evidence \<and> \<not> has_findings then (Inr None, w)
         else (case prompt_and_call (fact_check_prompt T result) (fact_checker A) w of
                 (Inl e, w') \<Rightarrow> (Inl e, w')
               | (Inr fact_check, w') \<Rightarrow> (Inr (Some fact_check), w')))"

definition raw_result_of :: "int \<Rightarrow> ResearchResultOutput \<Rightarrow> RawResult" where
  "raw_result_of i result =
     \<lparr>RawResult.iteration = i,
      findings = map (\<lambda>f. \<lparr>Finding.content = Finding.content f, source = Finding.source f\<rparr>)
                   (ResearchResultOutput.findings result),
      evidence = map (\<lambda>e. \<lparr>Evidence.title = Evidence.title e, url = Evidence.url e,
                           summary = Evidence.summary e\<rparr>)
                   (ResearchResultOutput.evidence result),
      summary = ResearchResultOutput.summary result\<rparr>"

subsection \<open>The evaluator prompt\<close>

text \<open>
  \<open>if fact_check_history: latest_fc = fact_check_history[-1] ... if latest_fc['removed'] > 0:
  removal_rate = latest_fc['removed'] / max(latest_fc['verified'] + latest_fc['removed'], 1)\<close>.
  No rate is computed when the list is empty or nothing was removed.
\<close>

definition removal_rate_of :: "FactCheckEntry list \<Rightarrow> error + real option" where
  "removal_rate_of history =
     (if history = [] then Inr None
      else (let latest_fc = last history
            in if removed latest_fc > 0
               then (case true_div (removed latest_fc)
                            (max (verified latest_fc + removed latest_fc) 1) of
                       Inl e \<Rightarrow> Inl e
                     | Inr removal_rate \<Rightarrow> Inr (Some removal_rate))
               else Inr None))"

definition build_evaluator_prompt ::
  "templates \<Rightarrow> pystr \<Rightarrow> SearchPlanOutput \<Rightarrow> ResearchResultOutput \<Rightarrow> FactCheckEntry list \<Rightarrow>
   EvaluationOutput list \<Rightarrow> int \<Rightarrow> int \<Rightarrow> error + pystr"
where
  "build_evaluator_prompt T th plan result history evals i max_iterations =
     (case evaluator_context T history evals of
        Inl e \<Rightarrow> Inl e
      | Inr context \<Rightarrow>
          (case removal_rate_of history of
             Inl e \<Rightarrow> Inl e
           | Inr removal_rate \<Rightarrow>
               evaluator_prompt T th plan result history evals i max_iterations context
                 removal_rate))"

subsection \<open>One iteration and the loop\<close>

text \<open>
  The body of \<open>for iteration in range(1, max_iterations + 1)\<close>. The result is the state
  after the body and whether the body left the loop with \<open>break\<close>; an exception of a
  prompt or of a wrapped call ends the function.
\<close>

definition research_iteration ::
  "templates \<Rightarrow> 'x agents \<Rightarrow> pystr \<Rightarrow> int \<Rightarrow> int \<Rightarrow> loop_state \<Rightarrow> 'x world
   \<Rightarrow> (error + loop_state \<times> bool) \<times> 'x world"
where
  "research_iteration T A th max_iterations i s w =
     (case prompt_and_call
             (researcher_prompt T th i (current_plan s) (accepted_findings s)
                (accepted_evidence s) (fact_check_history s) (evaluation_values w s))
             (researcher A) w of
        (Inl e, w1) \<Rightarrow> (Inl e, w1)
      | (Inr result, w1) \<Rightarrow>
          (let s1 = s\<lparr>current_result := Some result,
                       raw_results := raw_results s @ [raw_result_of i result]\<rparr>
           in case fact_check_step T A result w1 of
                (Inl e, w2) \<Rightarrow> (Inl e, w2)
              | (Inr fact_check, w2) \<Rightarrow>
                  (let s2 = record_fact_check i result fact_check s1
                   in case prompt_and_call
                             (build_evaluator_prompt T th (current_plan s2) result
                                (fact_check_history s2) (evaluation_values w2 s2) i
                                max_iterations)
                             (evaluator A) w2 of
                        (Inl e, w3) \<Rightarrow> (Inl e, w3)
                      | (Inr evaluation, w3) \<Rightarrow>
                          (let w4 = set_iteration_number evaluation i w3;
                               s3 = s2\<lparr>evaluations := evaluations s2 @ [evaluation]\<rparr>
                           in if \<not> should_refine (evaluation_objects w4 evaluation)
                                 \<or> i \<ge> max_iterations
                              then (Inr (s3, True), w4)
                              else (case refined_plan (evaluation_objects w4 evaluation) of
                                      Some plan \<Rightarrow> (Inr (s3\<lparr>current_plan := plan\<rparr>, False), w4)
                                    | None \<Rightarrow> (Inr (s3, False), w4))))))"

fun iterate ::
  "templates \<Rightarrow> 'x agents \<Rightarrow> pystr \<Rightarrow> int \<Rightarrow> int list \<Rightarrow> loop_state \<Rightarrow> 'x world
   \<Rightarrow> (error + loop_state) \<times> 'x world"
where
  "iterate T A th max_iterations [] s w = (Inr s, w)"
| "iterate T A th max_iterations (i # rest) s w =
     (case research_iteration T A th max_iterations i s w of
        (Inl e, w') \<Rightarrow> (Inl e, w')
      | (Inr (s', stop), w') \<Rightarrow>
          if stop then (Inr s', w') else iterate T A th max_iterations rest s' w')"

definition initial_state :: "SearchPlanOutput \<Rightarrow> loop_state" where
  "initial_state plan =
     \<lparr>current_plan = plan, evaluations = [], current_result = None, raw_results = [],
      accepted_findings = [], accepted_evidence = [], fact_check_history = []\<rparr>"

definition research_loop ::
  "templates \<Rightarrow> 'x agents \<Rightarrow> pystr \<Rightarrow> int \<Rightarrow> SearchPlanOutput \<Rightarrow> 'x world
   \<Rightarrow> (error + loop_state) \<times> 'x world"
where
  "research_loop T A th max_iterations plan w =
     iterate T A th max_iterations [1..max_iterations] (initial_state plan) w"

subsection \<open>Finalization and return\<close>

text \<open>
  The two \<open>if current_result and accepted_...: ... elif current_result: ...\<close> statements,
  in order. A schema object is truthy exactly when it is not \<open>None\<close>.
\<close>

definition finalize :: "loop_state \<Rightarrow> ResearchResultOutput option" where
  "finalize s =
     (let r1 = (case current_result s of
                  None \<Rightarrow> None
                | Some r \<Rightarrow>
                    if accepted_findings s \<noteq> []
                    then Some (r\<lparr>ResearchResultOutput.findings := accepted_findings s\<rparr>)
                    else Some (r\<lparr>ResearchResultOutput.findings := []\<rparr>))
      in case r1 of
           None \<Rightarrow> None
         | Some r \<Rightarrow>
             if accepted_evidence s \<noteq> []
             then Some (r\<lparr>ResearchResultOutput.evidence := accepted_evidence s\<rparr>)
             else Some (r\<lparr>ResearchResultOutput.evidence := []\<rparr>))"

type_synonym agentic_output =
  "SearchPlanOutput \<times> ResearchResultOutput option \<times> EvaluationOutput list \<times>
   FactCheckEntry list \<times> RawResult list"

text \<open>
  The whole function. With \<open>verbose\<close> set, the closing report reads \<open>evaluations[-1]\<close>,
  which raises when no iteration ran. The returned list of evaluations is given by the
  objects it holds, as they are when the function returns.
\<close>

definition run_agentic_research ::
  "templates \<Rightarrow> 'x agents \<Rightarrow> pystr \<Rightarrow> int \<Rightarrow> bool \<Rightarrow> 'x world
   \<Rightarrow> (error + agentic_output) \<times> 'x world"
where
  "run_agentic_research T A th max_iterations verbose w =
     (case planning T A th w of
        (Inl e, w1) \<Rightarrow> (Inl e, w1)
      | (Inr plan, w1) \<Rightarrow>
          (case research_loop T A th max_iterations plan w1 of
             (Inl e, w2) \<Rightarrow> (Inl e, w2)
           | (Inr s, w2) \<Rightarrow>
               if verbose \<and> evaluations s = [] then (Inl IndexError, w2)
               else (Inr (current_plan s, finalize s, evaluation_values w2 s,
                          fact_check_history s, raw_results s), w2)))"

text \<open>The prompt of one attempt, as the loop body of \<open>_run_with_retry\<close> computes it.\<close>

definition current_prompt_of :: "pystr \<Rightarrow> int \<Rightarrow> int \<Rightarrow> pystr" where
  "current_prompt_of prompt max_retries attempt =
     (if attempt = 0 then prompt else prompt @ amendment attempt max_retries)"


section \<open>Fixtures\<close>

text \<open>
  Stubs for the outside world and sample data, used to run the definitions on concrete
  inputs. The world of the three invoker stubs is the number of calls made so far: one
  always raises a malformed-structured-output failure, one does so in its first three
  calls and answers from the fourth on, one always raises a service failure.
\<close>

definition always_malformed :: "(nat, unit) invoker" where
  "always_malformed prompt calls = (Inl (ModelBehaviorError (ascii ''Invalid JSON'')), Suc calls)"

definition malformed_three_times :: "(nat, unit) invoker" where
  "malformed_three_times prompt calls =
     (if calls < 3 then (Inl (ModelBehaviorError (ascii ''Invalid JSON'')), Suc calls)
      else (Inr (), Suc calls))"

definition service_down :: "(nat, unit) invoker" where
  "service_down prompt calls = (Inl (OtherFailure (ascii ''503'')), Suc calls)"

text \<open>
  Findings and evidence; the two \<open>again\<close> items repeat a key with other fields changed.
\<close>

definition finding_a :: Finding where
  "finding_a = \<lparr>Finding.content = ascii ''Agents act autonomously'', source = ascii ''src1''\<rparr>"

definition finding_a_again :: Finding where
  "finding_a_again = \<lparr>Finding.content = ascii ''Agents act autonomously'', source = ascii ''src1 again''\<rparr>"

definition finding_b :: Finding where
  "finding_b = \<lparr>Finding.content = ascii ''LLMs are language models'', source = ascii ''src2''\<rparr>"

definition evidence_1 :: Evidence where
  "evidence_1 = \<lparr>Evidence.title = ascii ''T1'', url = ascii ''https://example.com/1'', summary = ascii ''S1''\<rparr>"

definition evidence_1_again :: Evidence where
  "evidence_1_again = \<lparr>Evidence.title = ascii ''T1 again'', url = ascii ''https://example.com/1'', summary = ascii ''S1 again''\<rparr>"

definition evidence_2 :: Evidence where
  "evidence_2 = \<lparr>Evidence.title = ascii ''T2'', url = ascii ''https://example.com/2'', summary = ascii ''S2''\<rparr>"

definition evidence_no_url :: Evidence where
  "evidence_no_url = \<lparr>Evidence.title = ascii ''T3'', url = [], summary = ascii ''S3''\<rparr>"

text \<open>
  Prompt templates that ignore most of their arguments and never raise, a theme and a
  plan.
\<close>

definition T0 :: templates where
  "T0 = \<lparr>planner_prompt = (\<lambda>th. Inr (ascii ''plan: '' @ th)),
         refinement_prompt = (\<lambda>plan user_input. Inr (ascii ''refine: '' @ user_input)),
         researcher_prompt = (\<lambda>th i plan fs es history evals. Inr (ascii ''research: '' @ th)),
         fact_check_prompt = (\<lambda>result. Inr (ascii ''check'')),
         evaluator_context = (\<lambda>history evals. Inr (ascii ''history'')),
         evaluator_prompt =
           (\<lambda>th plan result history evals i mx ctx rate. Inr (ascii ''evaluate: '' @ th))\<rparr>"

definition theme0 :: pystr where
  "theme0 = ascii ''AI agents''"

definition plan0 :: SearchPlanOutput where
  "plan0 = \<lparr>objective = ascii ''survey'', research_areas = [ascii ''market''],
            search_keywords = [(ascii ''market'', [ascii ''agents''])],
            priority_order = [ascii ''market''], research_strategy = ascii ''staged'',
            expected_outcomes = [ascii ''report'']\<rparr>"

text \<open>
  A researcher output with two findings and three evidence items, one of them without
  url; and one with nothing in it.
\<close>

definition result0 :: ResearchResultOutput where
  "result0 = \<lparr>theme = theme0, plan_used = Some plan0,
              findings = [finding_a, finding_b],
              evidence = [evidence_1, evidence_2, evidence_no_url],
              research_depth_analysis = ascii ''deep'',
              interconnections = [ascii ''a-b''],
              summary = ascii ''raw summary'',
              iteration_number = 1\<rparr>"

definition result_empty :: ResearchResultOutput where
  "result_empty = \<lparr>theme = theme0, plan_used = None, findings = [], evidence = [],
                   research_depth_analysis = [], interconnections = [],
                   summary = ascii ''nothing found'', iteration_number = 1\<rparr>"

text \<open>
  A fact-check verdict that verifies the first finding and the first evidence item,
  echoes a different url for it (keeping the researcher's url as \<open>original_url\<close>),
  removes the rest, and reports a reliability of 1 with one item verified and one
  removed. Then a verdict that verifies nothing, every field at its schema default.
\<close>

definition fact_check0 :: FactCheckResultOutput where
  "fact_check0 =
     \<lparr>verified_evidences =
        [\<lparr>VerifiedEvidence.title = ascii ''T1'', url = ascii ''https://mirror.example.org/1'',
          original_url = ascii ''https://example.com/1'', summary = ascii ''S1'',
          status = ascii ''replaced'', verification_note = ascii ''mirror''\<rparr>],
      removed_evidences =
        [\<lparr>RemovedEvidence.title = ascii ''T2'', original_url = ascii ''https://example.com/2'',
          reason = ascii ''fabricated''\<rparr>],
      verified_findings =
        [\<lparr>VerifiedFinding.content = ascii ''Agents act autonomously'', source = ascii ''src1'',
          source_url = ascii ''https://mirror.example.org/1'', confidence = ascii ''high''\<rparr>],
      removed_findings =
        [\<lparr>RemovedFinding.content = ascii ''LLMs are language models'', source = ascii ''src2'',
          reason = ascii ''no support''\<rparr>],
      verification_summary = ascii ''1 verified, 1 removed'',
      total_verified = 1,
      total_removed = 1,
      reliability_score = 1\<rparr>"

definition fact_check_none :: FactCheckResultOutput where
  "fact_check_none =
     \<lparr>verified_evidences = [], removed_evidences = [], verified_findings = [],
      removed_findings = [], verification_summary = [], total_verified = 0,
      total_removed = 0, reliability_score = 0\<rparr>"



text \<open>
  An evaluation that asks to continue or to stop; its own iteration number is wrong on
  purpose.
\<close>

definition evaluation0 :: "bool \<Rightarrow> EvaluationOutput" where
  "evaluation0 refine =
     \<lparr>EvaluationOutput.iteration_number = 7,
      objective_achievement_score = 8, coverage_score = 8, depth_insight_score = 8,
      actionability_score = 8, credibility_score = 8, quantitative_score = 8,
      coverage_gaps = [], overall_quality_score = 48, should_refine = refine,
      refinement_strategy = None, refined_plan = None, expert_observations = ascii ''ok''\<rparr>"

text \<open>
  Worlds for the workflow stubs: the store of evaluation objects, and the number of
  agent calls made so far; \<open>tick\<close> is one agent call. The evaluator stub
  \<open>fresh_evaluation\<close> puts a new object at the address given by the call counter and
  returns that address; \<open>same_evaluation\<close> returns address 0 every time.
\<close>

definition world0 :: "nat world" where
  "world0 = \<lparr>evaluation_objects = (\<lambda>r. evaluation0 True), outside = 0\<rparr>"

definition tick :: "nat world \<Rightarrow> nat world" where
  "tick w = w\<lparr>outside := Suc (outside w)\<rparr>"

definition evaluated :: "bool \<Rightarrow> nat world \<Rightarrow> nat world" where
  "evaluated refine w =
     (tick w)\<lparr>evaluation_objects := (evaluation_objects w)(outside w := evaluation0 refine)\<rparr>"

definition fresh_evaluation :: "bool \<Rightarrow> (nat world, ref) invoker" where
  "fresh_evaluation refine prompt w = (Inr (outside w), evaluated refine w)"

definition same_evaluation :: "(nat world, ref) invoker" where
  "same_evaluation prompt w = (Inr 0, tick w)"

text \<open>
  Agents that never raise: \<open>agents0\<close> with the verdict \<open>fact_check0\<close> and an evaluator
  that always gives the same answer, \<open>agents_reject\<close> with the verdict
  \<open>fact_check_none\<close>, \<open>agents_huge\<close> with the verdict \<open>fact_check_huge\<close> and an
  evaluator that always says continue, \<open>agents_same\<close> with a researcher that finds
  nothing and the evaluator \<open>same_evaluation\<close>. In \<open>agents_empty\<close> the researcher
  finds nothing and the fact-checker would raise if it were called.
\<close>

definition agents0 :: "bool \<Rightarrow> nat agents" where
  "agents0 refine =
     \<lparr>planner = (\<lambda>prompt w. (Inr plan0, tick w)),
      researcher = (\<lambda>prompt w. (Inr result0, tick w)),
      fact_checker = (\<lambda>prompt w. (Inr fact_check0, tick w)),
      evaluator = fresh_evaluation refine,
      input = (\<lambda>w. (Inr (ascii '' ''), w))\<rparr>"

definition agents_reject :: "nat agents" where
  "agents_reject =
     \<lparr>planner = (\<lambda>prompt w. (Inr plan0, tick w)),
      researcher = (\<lambda>prompt w. (Inr result0, tick w)),
      fact_checker = (\<lambda>prompt w. (Inr fact_check_none, tick w)),
      evaluator = fresh_evaluation False,
      input = (\<lambda>w. (Inr [], w))\<rparr>"

definition agents_empty :: "nat agents" where
  "agents_empty =
     \<lparr>planner = (\<lambda>prompt w. (Inr plan0, tick w)),
      researcher = (\<lambda>prompt w. (Inr result_empty, tick w)),
      fact_checker = (\<lambda>prompt w. (Inl (OtherFailure (ascii ''must not be called'')), tick w)),
      evaluator = fresh_evaluation False,
      input = (\<lambda>w. (Inr [], w))\<rparr>"


definition agents_same :: "nat agents" where
  "agents_same =
     \<lparr>planner = (\<lambda>prompt w. (Inr plan0, tick w)),
      researcher = (\<lambda>prompt w. (Inr result_empty, tick w)),
      fact_checker = (\<lambda>prompt w. (Inr fact_check_none, tick w)),
      evaluator = same_evaluation,
      input = (\<lambda>w. (Inr [], w))\<rparr>"

text \<open>
  The history entries, loop states and final results these agents lead to after one
  iteration; the argument of a state is the address of its evaluation.
\<close>

definition entry0 :: FactCheckEntry where
  "entry0 = \<lparr>FactCheckEntry.iteration = 1, verified = 1, removed = 1, reliability = 1,
             removed_reasons =
               [ascii ''LLMs are language models... '' @ [8594, 32] @ ascii ''no support'',
                ascii ''URL: https://example.com/2 '' @ [8594, 32] @ ascii ''fabricated''],
             summary = ascii ''1 verified, 1 removed''\<rparr>"

definition entry_none :: FactCheckEntry where
  "entry_none = \<lparr>FactCheckEntry.iteration = 1, verified = 0, removed = 0, reliability = 0,
                 removed_reasons = [], summary = []\<rparr>"

definition skipped_entry :: "int \<Rightarrow> FactCheckEntry" where
  "skipped_entry i = \<lparr>FactCheckEntry.iteration = i, verified = 0, removed = 0, reliability = 0,
                      removed_reasons = [], summary = skipped_summary\<rparr>"

definition state1 :: "ref \<Rightarrow> loop_state" where
  "state1 r =
     \<lparr>current_plan = plan0,
      evaluations = [r],
      current_result = Some result0,
      raw_results = [raw_result_of 1 result0],
      accepted_findings = [finding_a],
      accepted_evidence = [evidence_1],
      fact_check_history = [entry0]\<rparr>"

definition state_reject :: "ref \<Rightarrow> loop_state" where
  "state_reject r =
     \<lparr>current_plan = plan0,
      evaluations = [r],
      current_result = Some result0,
      raw_results = [raw_result_of 1 result0],
      accepted_findings = [],
      accepted_evidence = [],
      fact_check_history = [entry_none]\<rparr>"

definition state_skipped :: "ref \<Rightarrow> loop_state" where
  "state_skipped r =
     \<lparr>current_plan = plan0,
      evaluations = [r],
      current_result = Some result_empty,
      raw_results = [raw_result_of 1 result_empty],
      accepted_findings = [],
      accepted_evidence = [],
      fact_check_history = [skipped_entry 1]\<rparr>"

definition final0 :: ResearchResultOutput where
  "final0 = result0\<lparr>ResearchResultOutput.findings := [finding_a],
                     ResearchResultOutput.evidence := [evidence_1]\<rparr>"

definition final_reject :: ResearchResultOutput where
  "final_reject = result0\<lparr>ResearchResultOutput.findings := [],
                           ResearchResultOutput.evidence := []\<rparr>"

text \<open>
  The world after the evaluator stub answered in world \<open>w\<close> and the workflow wrote the
  iteration number into the object it returned.
\<close>

definition after_evaluation :: "bool \<Rightarrow> int \<Rightarrow> nat world \<Rightarrow> nat world" where
  "after_evaluation refine i w = set_iteration_number (outside w) i (evaluated refine w)"


section \<open>Properties of the retrying call wrapper\<close>

lemma upto_from_0: "0 \<le> k \<Longrightarrow> [0..k] = 0 # [1..k]"
  by (simp add: upto_rec1)

lemma run_with_retry_first_success:
  "run prompt w = (Inr x, w') \<Longrightarrow> 0 \<le> k \<Longrightarrow> run_with_retry run prompt k w = (Inr x, w')"
  by (simp add: run_with_retry_def upto_from_0)

lemma retry_attempts_Inr_from_call:
  "retry_attempts run prompt k attempts last_error w = (Inr x, w') \<Longrightarrow>
   \<exists>p w0. run p w0 = (Inr x, w')"
proof (induction attempts arbitrary: last_error w)
  case Nil
  then show ?case by (simp split: option.splits)
next
  case (Cons a rest)
  let ?p = "if a = 0 then prompt else prompt @ amendment a k"
  obtain r w1 where c: "run ?p w = (r, w1)" by (cases "run ?p w") blast
  show ?case
  proof (cases r)
    case (Inr out)
    with Cons.prems c have "out = x" "w1 = w'" by simp_all
    with c Inr show ?thesis by blast
  next
    case (Inl err)
    show ?thesis
    proof (cases err)
      case (ModelBehaviorError m)
      with Cons.prems c Inl
      have "retry_attempts run prompt k rest (Some (ModelBehaviorError m)) w1 = (Inr x, w')"
        by simp
      then show ?thesis by (rule Cons.IH)
    qed (use Cons.prems c Inl in simp_all)
  qed
qed

lemma run_with_retry_Inr_from_call:
  "run_with_retry run prompt k w = (Inr x, w') \<Longrightarrow> \<exists>p w0. run p w0 = (Inr x, w')"
  unfolding run_with_retry_def by (rule retry_attempts_Inr_from_call)

text \<open>
  Claim C5. If the first call of the invoker raises a failure that is not a
  malformed-structured-output failure, the wrapper calls the invoker exactly once (with
  the prompt verbatim) and raises that same failure; there is no retry.
\<close>

theorem run_with_retry_other_failure:
  assumes r: "run prompt w = (Inl e, w')" and e: "\<forall>m. e \<noteq> ModelBehaviorError m" and k: "0 \<le> k"
  shows "run_with_retry (logged run) prompt k (w, []) = (Inl e, (w', [prompt]))"
  using r e by (cases e) (simp_all add: run_with_retry_def upto_from_0 [OF k] logged_def)

lemma raises_malformed_on_each_Cons:
  "raises_malformed_on_each run (p # ps) w \<longleftrightarrow>
     (\<exists>m w'. run p w = (Inl (ModelBehaviorError m), w') \<and> raises_malformed_on_each run ps w')"
  by (auto split: prod.splits sum.splits error.splits)

lemma retry_attempts_logged_each_malformed:
  "raises_malformed_on_each run (map (current_prompt_of prompt k) attempts) w \<Longrightarrow>
   attempts \<noteq> [] \<Longrightarrow>
   \<exists>m w'. retry_attempts (logged run) prompt k attempts last_error (w, lg) =
             (Inl (ModelBehaviorError m), (w', lg @ map (current_prompt_of prompt k) attempts)) \<and>
          run (current_prompt_of prompt k (last attempts))
            (foldl (\<lambda>w p. snd (run p w)) w (map (current_prompt_of prompt k) (butlast attempts))) =
             (Inl (ModelBehaviorError m), w')"
proof (induction attempts arbitrary: last_error w lg)
  case Nil
  then show ?case by simp
next
  case (Cons a rest)
  let ?g = "current_prompt_of prompt k"
  obtain m w1 where r: "run (?g a) w = (Inl (ModelBehaviorError m), w1)"
      and rest: "raises_malformed_on_each run (map ?g rest) w1"
    using Cons.prems(1) unfolding list.map raises_malformed_on_each_Cons by blast
  have lr: "logged run (?g a) (w, lg) = (Inl (ModelBehaviorError m), (w1, lg @ [?g a]))"
    using r by (simp add: logged_def)
  have step: "retry_attempts (logged run) prompt k (a # rest) last_error (w, lg) =
      retry_attempts (logged run) prompt k rest (Some (ModelBehaviorError m)) (w1, lg @ [?g a])"
    using lr by (simp add: current_prompt_of_def)
  show ?case
  proof (cases "rest = []")
    case True
    with step r show ?thesis by simp
  next
    case False
    obtain m' w' where
      a: "retry_attempts (logged run) prompt k rest (Some (ModelBehaviorError m)) (w1, lg @ [?g a]) =
            (Inl (ModelBehaviorError m'), (w', (lg @ [?g a]) @ map ?g rest))" and
      b: "run (?g (last rest)) (foldl (\<lambda>w p. snd (run p w)) w1 (map ?g (butlast rest))) =
            (Inl (ModelBehaviorError m'), w')"
      using Cons.IH [OF rest False] by blast
    from a b step r False show ?thesis by simp
  qed
qed

lemma prompts_upto:
  "0 \<le> k \<Longrightarrow> map (current_prompt_of prompt k) [0..k] =
     prompt # map (\<lambda>attempt. prompt @ amendment attempt k) [1..k]"
  by (simp add: upto_from_0 current_prompt_of_def)

lemma amendment_text:
  "amendment attempt k =
     [10, 10, 12304, 9888, 65039, 32, 12522, 12488, 12521, 12452, 32]
     @ str_int attempt @ [47] @ str_int k @
     [32, 45, 32, 20986, 21147, 37327, 21066, 28187, 25351, 31034, 12305, 10,
          21069, 22238, 12398, 20986, 21147, 12364, 12488, 12540, 12463, 12531, 21046,
          38480, 12391, 20999, 12426, 35440, 12417, 12425, 12428, 12289, 74, 83, 79, 78,
          12364, 22730, 12428, 12414, 12375, 12383, 12290, 10, 20197, 19979, 12434,
          21427, 23432, 12375, 12289, 24517, 12378, 23436, 20840, 12394, 74, 83, 79, 78,
          12434, 20986, 21147, 12375, 12390, 12367, 12384, 12373, 12356, 58, 10, 45, 32,
          102, 105, 110, 100, 105, 110, 103, 115, 32, 12399, 26368, 22823, 32, 56, 32,
          20214, 12395, 21046, 38480, 12377, 12427, 65288, 37325, 35201, 12394, 12418,
          12398, 12384, 12369, 21427, 36984, 65289, 10, 45, 32, 101, 118, 105, 100, 101,
          110, 99, 101, 32, 12399, 26368, 22823, 32, 53, 32, 20214, 12395, 21046, 38480,
          12377, 12427, 65288, 26368, 12418, 20449, 38972, 24615, 12398, 39640, 12356,
          12418, 12398, 65289, 10, 45, 32, 115, 117, 109, 109, 97, 114, 121, 32, 12399,
          32, 50, 48, 48, 32, 23383, 20197, 20869, 12395, 12377, 12427, 10, 45, 32, 114,
          101, 115, 101, 97, 114, 99, 104, 95, 100, 101, 112, 116, 104, 95, 97, 110, 97,
          108, 121, 115, 105, 115, 44, 32, 105, 110, 116, 101, 114, 99, 111, 110, 110,
          101, 99, 116, 105, 111, 110, 115, 32, 12399, 31777, 28500, 12395, 65288,
          21508, 32, 49, 48, 48, 32, 23383, 20197, 20869, 65289, 10, 45, 32, 112, 108,
          97, 110, 95, 117, 115, 101, 100, 32, 12399, 32, 111, 98, 106, 101, 99, 116,
          105, 118, 101, 32, 12398, 12415, 35352, 36617, 12375, 20182, 12399, 30465,
          30053, 21487, 33021, 10, 45, 32, 23436, 20840, 12394, 74, 83, 79, 78, 27083,
          36896, 65288, 12377, 12409, 12390, 12398, 25324, 24359, 12364, 38281, 12376,
          12390, 12356, 12427, 65289, 12434, 20778, 20808, 12377, 12427, 12371, 12392,
          10]"
  by (simp add: amendment_def amendment_head_def amendment_tail_def)

text \<open>
  Claim C4, amended. Let \<open>max_retries = k \<ge> 0\<close>, and let the invoker raise a
  malformed-structured-output failure on each call the wrapper makes: called with the
  prompt and then with the prompt of each retry, one after the other from the world
  \<open>w\<close>. Then the wrapper makes exactly these \<open>k + 1\<close> calls and raises the failure of
  the last of them. Attempt 0 gets the prompt verbatim. Retry number \<open>attempt\<close> gets the
  prompt followed by the amendment of that attempt: the header text, \<open>attempt/k\<close>, and
  the shrink-output instructions, which are the same on every retry; both texts are
  written out code point by code point. An amended prompt is never the prompt itself.
  With \<open>k = 0\<close> the list of retries \<open>[1..0]\<close> is empty: one call, no amendment. The
  calls are read off the log that \<open>logged\<close> keeps; the third conjunct says that the
  result of the wrapper is the result of the last of these calls.
\<close>

theorem run_with_retry_all_malformed:
  assumes H: "raises_malformed_on_each run
                (prompt # map (\<lambda>attempt. prompt @ amendment attempt k) [1..k]) w"
    and k: "0 \<le> k"
  shows "\<exists>m w'.
     run_with_retry (logged run) prompt k (w, []) =
       (Inl (ModelBehaviorError m),
        (w', prompt # map (\<lambda>attempt. prompt @ amendment attempt k) [1..k])) \<and>
     length (prompt # map (\<lambda>attempt. prompt @ amendment attempt k) [1..k]) = nat k + 1 \<and>
     run (last (prompt # map (\<lambda>attempt. prompt @ amendment attempt k) [1..k]))
         (foldl (\<lambda>w p. snd (run p w)) w
            (butlast (prompt # map (\<lambda>attempt. prompt @ amendment attempt k) [1..k]))) =
       (Inl (ModelBehaviorError m), w') \<and>
     (\<forall>attempt. amendment attempt k =
        [10, 10, 12304, 9888, 65039, 32, 12522, 12488, 12521, 12452, 32]
        @ str_int attempt @ [47] @ str_int k @
        [32, 45, 32, 20986, 21147, 37327, 21066, 28187, 25351, 31034, 12305, 10,
          21069, 22238, 12398, 20986, 21147, 12364, 12488, 12540, 12463, 12531, 21046,
          38480, 12391, 20999, 12426, 35440, 12417, 12425, 12428, 12289, 74, 83, 79, 78,
          12364, 22730, 12428, 12414, 12375, 12383, 12290, 10, 20197, 19979, 12434,
          21427, 23432, 12375, 12289, 24517, 12378, 23436, 20840, 12394, 74, 83, 79, 78,
          12434, 20986, 21147, 12375, 12390, 12367, 12384, 12373, 12356, 58, 10, 45, 32,
          102, 105, 110, 100, 105, 110, 103, 115, 32, 12399, 26368, 22823, 32, 56, 32,
          20214, 12395, 21046, 38480, 12377, 12427, 65288, 37325, 35201, 12394, 12418,
          12398, 12384, 12369, 21427, 36984, 65289, 10, 45, 32, 101, 118, 105, 100, 101,
          110, 99, 101, 32, 12399, 26368, 22823, 32, 53, 32, 20214, 12395, 21046, 38480,
          12377, 12427, 65288, 26368, 12418, 20449, 38972, 24615, 12398, 39640, 12356,
          12418, 12398, 65289, 10, 45, 32, 115, 117, 109, 109, 97, 114, 121, 32, 12399,
          32, 50, 48, 48, 32, 23383, 20197, 20869, 12395, 12377, 12427, 10, 45, 32, 114,
          101, 115, 101, 97, 114, 99, 104, 95, 100, 101, 112, 116, 104, 95, 97, 110, 97,
          108, 121, 115, 105, 115, 44, 32, 105, 110, 116, 101, 114, 99, 111, 110, 110,
          101, 99, 116, 105, 111, 110, 115, 32, 12399, 31777, 28500, 12395, 65288,
          21508, 32, 49, 48, 48, 32, 23383, 20197, 20869, 65289, 10, 45, 32, 112, 108,
          97, 110, 95, 117, 115, 101, 100, 32, 12399, 32, 111, 98, 106, 101, 99, 116,
          105, 118, 101, 32, 12398, 12415, 35352, 36617, 12375, 20182, 12399, 30465,
          30053, 21487, 33021, 10, 45, 32, 23436, 20840, 12394, 74, 83, 79, 78, 27083,
          36896, 65288, 12377, 12409, 12390, 12398, 25324, 24359, 12364, 38281, 12376,
          12390, 12356, 12427, 65289, 12434, 20778, 20808, 12377, 12427, 12371, 12392,
          10]) \<and>
     (\<forall>attempt. prompt @ amendment attempt k \<noteq> prompt)"
proof -
  let ?ps = "prompt # map (\<lambda>attempt. prompt @ amendment attempt k) [1..k]"
  let ?g = "current_prompt_of prompt k"
  have ps: "map ?g [0..k] = ?ps" using k by (rule prompts_upto)
  have ne: "[0..k] \<noteq> []" using k by (simp add: upto_from_0)
  have lastp: "?g (last [0..k]) = last ?ps"
    using ne ps by (metis last_map)
  have butp: "map ?g (butlast [0..k]) = butlast ?ps"
    using ps by (metis map_butlast)
  have H': "raises_malformed_on_each run (map ?g [0..k]) w" using H ps by simp
  obtain m w' where
    a: "retry_attempts (logged run) prompt k [0..k] None (w, []) =
          (Inl (ModelBehaviorError m), (w', [] @ map ?g [0..k]))" and
    b: "run (?g (last [0..k])) (foldl (\<lambda>w p. snd (run p w)) w (map ?g (butlast [0..k]))) =
          (Inl (ModelBehaviorError m), w')"
    using retry_attempts_logged_each_malformed [OF H' ne] by blast
  have c1: "run_with_retry (logged run) prompt k (w, []) = (Inl (ModelBehaviorError m), (w', ?ps))"
    using a ps by (simp add: run_with_retry_def)
  have c2: "length ?ps = nat k + 1" using k by simp
  have c3: "run (last ?ps) (foldl (\<lambda>w p. snd (run p w)) w (butlast ?ps)) =
              (Inl (ModelBehaviorError m), w')"
    using b lastp butp by simp
  have c4: "\<forall>attempt. amendment attempt k =
        [10, 10, 12304, 9888, 65039, 32, 12522, 12488, 12521, 12452, 32]
        @ str_int attempt @ [47] @ str_int k @
        [32, 45, 32, 20986, 21147, 37327, 21066, 28187, 25351, 31034, 12305, 10,
          21069, 22238, 12398, 20986, 21147, 12364, 12488, 12540, 12463, 12531, 21046,
          38480, 12391, 20999, 12426, 35440, 12417, 12425, 12428, 12289, 74, 83, 79, 78,
          12364, 22730, 12428, 12414, 12375, 12383, 12290, 10, 20197, 19979, 12434,
          21427, 23432, 12375, 12289, 24517, 12378, 23436, 20840, 12394, 74, 83, 79, 78,
          12434, 20986, 21147, 12375, 12390, 12367, 12384, 12373, 12356, 58, 10, 45, 32,
          102, 105, 110, 100, 105, 110, 103, 115, 32, 12399, 26368, 22823, 32, 56, 32,
          20214, 12395, 21046, 38480, 12377, 12427, 65288, 37325, 35201, 12394, 12418,
          12398, 12384, 12369, 21427, 36984, 65289, 10, 45, 32, 101, 118, 105, 100, 101,
          110, 99, 101, 32, 12399, 26368, 22823, 32, 53, 32, 20214, 12395, 21046, 38480,
          12377, 12427, 65288, 26368, 12418, 20449, 38972, 24615, 12398, 39640, 12356,
          12418, 12398, 65289, 10, 45, 32, 115, 117, 109, 109, 97, 114, 121, 32, 12399,
          32, 50, 48, 48, 32, 23383, 20197, 20869, 12395, 12377, 12427, 10, 45, 32, 114,
          101, 115, 101, 97, 114, 99, 104, 95, 100, 101, 112, 116, 104, 95, 97, 110, 97,
          108, 121, 115, 105, 115, 44, 32, 105, 110, 116, 101, 114, 99, 111, 110, 110,
          101, 99, 116, 105, 111, 110, 115, 32, 12399, 31777, 28500, 12395, 65288,
          21508, 32, 49, 48, 48, 32, 23383, 20197, 20869, 65289, 10, 45, 32, 112, 108,
          97, 110, 95, 117, 115, 101, 100, 32, 12399, 32, 111, 98, 106, 101, 99, 116,
          105, 118, 101, 32, 12398, 12415, 35352, 36617, 12375, 20182, 12399, 30465,
          30053, 21487, 33021, 10, 45, 32, 23436, 20840, 12394, 74, 83, 79, 78, 27083,
          36896, 65288, 12377, 12409, 12390, 12398, 25324, 24359, 12364, 38281, 12376,
          12390, 12356, 12427, 65289, 12434, 20778, 20808, 12377, 12427, 12371, 12392,
          10]"
    by (simp add: amendment_text)
  have c5: "\<forall>attempt. prompt @ amendment attempt k \<noteq> prompt"
    by (simp add: amendment_def amendment_head_def)
  from c1 c2 c3 c4 c5 show ?thesis by blast
qed

lemma upto_1_2: "[1..2] = [1, 2::int]" "[1..0] = ([] :: int list)"
  by (simp_all add: upto_rec1)

lemma str_int_small:
  "str_int 1 = [49]" "str_int 2 = [50]" "str_int 10 = [49, 48]" "str_int 120 = [49, 50, 48]"
  by (simp_all add: str_int_def digits.simps)

theorem run_with_retry_all_malformed_witness:
  "run_with_retry (logged malformed_three_times) (ascii ''go'') 2 (0, []) =
     (Inl (ModelBehaviorError (ascii ''Invalid JSON'')),
      (3, [ascii ''go'', ascii ''go'' @ amendment 1 2, ascii ''go'' @ amendment 2 2])) \<and>
   run_with_retry (logged always_malformed) (ascii ''go'') 0 (0, []) =
     (Inl (ModelBehaviorError (ascii ''Invalid JSON'')), (1, [ascii ''go''])) \<and>
   malformed_three_times (ascii ''go'') 3 = (Inr (), 4) \<and>
   str_int 1 = [49] \<and> str_int 2 = [50] \<and> str_int 10 = [49, 48] \<and>
   take 13 (amendment 1 2) =
     [10, 10, 12304, 9888, 65039, 32, 12522, 12488, 12521, 12452, 32, 49, 47] \<and>
   length (amendment 1 2) = 308"
proof -
  have H3: "raises_malformed_on_each malformed_three_times
              (ascii ''go'' # map (\<lambda>attempt. ascii ''go'' @ amendment attempt 2) [1..2]) 0"
    by (simp add: upto_1_2 malformed_three_times_def)
  have H0: "raises_malformed_on_each always_malformed
              (ascii ''go'' # map (\<lambda>attempt. ascii ''go'' @ amendment attempt 0) [1..0]) 0"
    by (simp add: upto_1_2 always_malformed_def)
  have k2: "(0::int) \<le> 2" and k0: "(0::int) \<le> 0" by simp_all
  obtain m w' where
    a0: "run_with_retry (logged malformed_three_times) (ascii ''go'') 2 (0, []) =
          (Inl (ModelBehaviorError m),
           (w', ascii ''go'' # map (\<lambda>attempt. ascii ''go'' @ amendment attempt 2) [1..2]))" and
    b0: "malformed_three_times
          (last (ascii ''go'' # map (\<lambda>attempt. ascii ''go'' @ amendment attempt 2) [1..2]))
          (foldl (\<lambda>w p. snd (malformed_three_times p w)) 0
             (butlast (ascii ''go'' # map (\<lambda>attempt. ascii ''go'' @ amendment attempt 2) [1..2]))) =
          (Inl (ModelBehaviorError m), w')"
    using run_with_retry_all_malformed [OF H3 k2]
    by (elim exE conjE) (rule that; assumption)
  have a: "run_with_retry (logged malformed_three_times) (ascii ''go'') 2 (0, []) =
          (Inl (ModelBehaviorError m),
           (w', [ascii ''go'', ascii ''go'' @ amendment 1 2, ascii ''go'' @ amendment 2 2]))"
    using a0 by (simp add: upto_1_2)
  have b: "malformed_three_times (ascii ''go'' @ amendment 2 2)
          (snd (malformed_three_times (ascii ''go'' @ amendment 1 2)
             (snd (malformed_three_times (ascii ''go'') 0)))) =
          (Inl (ModelBehaviorError m), w')"
    using b0 by (simp add: upto_1_2)
  obtain m0 w0 where
    c0: "run_with_retry (logged always_malformed) (ascii ''go'') 0 (0, []) =
          (Inl (ModelBehaviorError m0),
           (w0, ascii ''go'' # map (\<lambda>attempt. ascii ''go'' @ amendment attempt 0) [1..0]))" and
    d0: "always_malformed
          (last (ascii ''go'' # map (\<lambda>attempt. ascii ''go'' @ amendment attempt 0) [1..0]))
          (foldl (\<lambda>w p. snd (always_malformed p w)) 0
             (butlast (ascii ''go'' # map (\<lambda>attempt. ascii ''go'' @ amendment attempt 0) [1..0]))) =
          (Inl (ModelBehaviorError m0), w0)"
    using run_with_retry_all_malformed [OF H0 k0]
    by (elim exE conjE) (rule that; assumption)
  have c: "run_with_retry (logged always_malformed) (ascii ''go'') 0 (0, []) =
          (Inl (ModelBehaviorError m0), (w0, [ascii ''go'']))"
    using c0 by (simp add: upto_1_2)
  have d: "always_malformed (ascii ''go'') 0 = (Inl (ModelBehaviorError m0), w0)"
    using d0 by (simp add: upto_1_2)
  from b have e1: "m = ascii ''Invalid JSON''" "w' = 3"
    by (simp_all add: malformed_three_times_def)
  from d have e2: "m0 = ascii ''Invalid JSON''" "w0 = 1"
    by (simp_all add: always_malformed_def)
  have f: "malformed_three_times (ascii ''go'') 3 = (Inr (), 4)"
    by (simp add: malformed_three_times_def)
  have g: "take 13 (amendment 1 2) =
     [10, 10, 12304, 9888, 65039, 32, 12522, 12488, 12521, 12452, 32, 49, 47]"
     "length (amendment 1 2) = 308"
    by (simp_all add: amendment_text str_int_small)
  from a c e1 e2 f g show ?thesis by (simp add: str_int_small)
qed

text \<open>
  Claim C4 calls the text appended on a retry fixed. It is not: the f-string of the
  source puts the number of the attempt into its header. With an invoker that always
  raises a malformed-structured-output failure and \<open>max_retries = 2\<close>, the log holds the
  prompt, the prompt with the amendment of attempt 1 and the prompt with the amendment
  of attempt 2, and the two amendments differ: at index 11 one has the digit \<open>1\<close>, the
  other the digit \<open>2\<close>.
\<close>

theorem retry_amendment_is_not_fixed_counterexample:
  "snd (snd (run_with_retry (logged always_malformed) (ascii ''go'') 2 (0, []))) =
     [ascii ''go'', ascii ''go'' @ amendment 1 2, ascii ''go'' @ amendment 2 2] \<and>
   amendment 1 2 \<noteq> amendment 2 2 \<and>
   amendment 1 2 ! 11 = 49 \<and> amendment 2 2 ! 11 = 50"
proof -
  have "run_with_retry (logged always_malformed) (ascii ''go'') 2 (0, []) =
     (Inl (ModelBehaviorError (ascii ''Invalid JSON'')),
      (3, [ascii ''go'', ascii ''go'' @ amendment 1 2, ascii ''go'' @ amendment 2 2]))"
    by (simp add: run_with_retry_def upto_from_0 upto_1_2 logged_def always_malformed_def)
  moreover have "amendment 1 2 ! 11 = 49" "amendment 2 2 ! 11 = 50"
    by (simp_all add: amendment_def amendment_head_def str_int_small)
  moreover from this have "amendment 1 2 \<noteq> amendment 2 2" by auto
  ultimately show ?thesis by simp
qed

theorem run_with_retry_other_failure_witness:
  "run_with_retry (logged service_down) (ascii ''go'') 2 (0, []) =
     (Inl (OtherFailure (ascii ''503'')), (1, [ascii ''go'']))"
proof -
  have r: "service_down (ascii ''go'') 0 = (Inl (OtherFailure (ascii ''503'')), 1)"
    by (simp add: service_down_def)
  show ?thesis
    using run_with_retry_other_failure
            [of service_down "ascii ''go''" 0 "OtherFailure (ascii ''503'')" 1 2] r
    by simp
qed


section \<open>Properties of the accumulation pools\<close>

lemma accumulate_findings_append:
  "\<exists>new. accumulate_findings fs accepted ex = accepted @ new \<and> set new \<subseteq> set fs"
proof (induction fs arbitrary: accepted ex)
  case Nil
  then show ?case by simp
next
  case (Cons f fs)
  show ?case
  proof (cases "take 80 (Finding.content f) \<in> ex")
    case True
    with Cons.IH [of accepted ex] show ?thesis by auto
  next
    case False
    obtain new where "accumulate_findings fs (accepted @ [f]) (insert (take 80 (Finding.content f)) ex)
        = (accepted @ [f]) @ new" "set new \<subseteq> set fs"
      using Cons.IH by blast
    with False have "accumulate_findings (f # fs) accepted ex = accepted @ (f # new) \<and>
       set (f # new) \<subseteq> set (f # fs)" by auto
    then show ?thesis by blast
  qed
qed

lemma accumulate_evidence_append:
  "\<exists>new. accumulate_evidence es accepted ex = accepted @ new \<and> set new \<subseteq> set es \<and>
         (\<forall>e\<in>set new. Evidence.url e \<noteq> [])"
proof (induction es arbitrary: accepted ex)
  case Nil
  then show ?case by simp
next
  case (Cons e es)
  show ?case
  proof (cases "Evidence.url e \<noteq> [] \<and> Evidence.url e \<notin> ex")
    case False
    with Cons.IH [of accepted ex] show ?thesis by auto
  next
    case True
    obtain new where "accumulate_evidence es (accepted @ [e]) (insert (Evidence.url e) ex)
        = (accepted @ [e]) @ new" "set new \<subseteq> set es" "\<forall>e\<in>set new. Evidence.url e \<noteq> []"
      using Cons.IH by blast
    with True have "accumulate_evidence (e # es) accepted ex = accepted @ (e # new) \<and>
       set (e # new) \<subseteq> set (e # es) \<and> (\<forall>x\<in>set (e # new). Evidence.url x \<noteq> [])" by auto
    then show ?thesis by blast
  qed
qed

lemma merge_findings_Cons:
  "merge_findings pool (f # fs) = merge_findings (merge_findings pool [f]) fs"
  by (simp add: merge_findings_def)

lemma merge_evidence_Cons:
  "merge_evidence pool (e # es) = merge_evidence (merge_evidence pool [e]) es"
  by (simp add: merge_evidence_def)

lemma record_fact_check_Some:
  "\<exists>nf ne.
     accepted_findings (record_fact_check i result (Some fc) s) = accepted_findings s @ nf \<and>
     accepted_evidence (record_fact_check i result (Some fc) s) = accepted_evidence s @ ne \<and>
     (\<forall>f\<in>set nf. f \<in> set (ResearchResultOutput.findings result) \<and>
                  take 80 (Finding.content f) \<in> verified_contents_of fc) \<and>
     (\<forall>e\<in>set ne. e \<in> set (ResearchResultOutput.evidence result) \<and>
                  Evidence.url e \<in> verified_urls_of fc \<and> Evidence.url e \<noteq> [])"
proof -
  let ?iaf = "filter (\<lambda>f. take 80 (Finding.content f) \<in> verified_contents_of fc)
                (ResearchResultOutput.findings result)"
  let ?iae = "filter (\<lambda>e. Evidence.url e \<in> verified_urls_of fc)
                (ResearchResultOutput.evidence result)"
  obtain nf where nf: "merge_findings (accepted_findings s) ?iaf = accepted_findings s @ nf"
      "set nf \<subseteq> set ?iaf"
    unfolding merge_findings_def using accumulate_findings_append by blast
  obtain ne where ne: "merge_evidence (accepted_evidence s) ?iae = accepted_evidence s @ ne"
      "set ne \<subseteq> set ?iae" "\<forall>e\<in>set ne. Evidence.url e \<noteq> []"
    unfolding merge_evidence_def using accumulate_evidence_append by blast
  have "accepted_findings (record_fact_check i result (Some fc) s) = accepted_findings s @ nf"
    using nf(1) by (simp add: record_fact_check_def Let_def)
  moreover have "accepted_evidence (record_fact_check i result (Some fc) s) = accepted_evidence s @ ne"
    using ne(1) by (simp add: record_fact_check_def Let_def)
  moreover have "\<forall>f\<in>set nf. f \<in> set (ResearchResultOutput.findings result) \<and>
                  take 80 (Finding.content f) \<in> verified_contents_of fc"
    using nf(2) by auto
  moreover have "\<forall>e\<in>set ne. e \<in> set (ResearchResultOutput.evidence result) \<and>
                  Evidence.url e \<in> verified_urls_of fc \<and> Evidence.url e \<noteq> []"
    using ne(2,3) by auto
  ultimately show ?thesis by blast
qed

lemma record_fact_check_None:
  "record_fact_check i result None s =
     s\<lparr>fact_check_history := fact_check_history s @
        [\<lparr>FactCheckEntry.iteration = i, verified = 0, removed = 0, reliability = 0,
          removed_reasons = [], summary = skipped_summary\<rparr>]\<rparr>"
  by (simp add: record_fact_check_def)

lemma record_fact_check_frame:
  "current_plan (record_fact_check i result fact_check s) = current_plan s"
  "evaluations (record_fact_check i result fact_check s) = evaluations s"
  "current_result (record_fact_check i result fact_check s) = current_result s"
  "raw_results (record_fact_check i result fact_check s) = raw_results s"
  "length (fact_check_history (record_fact_check i result fact_check s)) =
     Suc (length (fact_check_history s))"
  by (simp_all add: record_fact_check_def Let_def split: option.splits)

lemma record_fact_check_pools_update:
  "accepted_findings (record_fact_check i result fact_check
       (s\<lparr>current_result := c, raw_results := r\<rparr>)) =
     accepted_findings (record_fact_check i result fact_check s)"
  "accepted_evidence (record_fact_check i result fact_check
       (s\<lparr>current_result := c, raw_results := r\<rparr>)) =
     accepted_evidence (record_fact_check i result fact_check s)"
  "fact_check_history (record_fact_check i result fact_check
       (s\<lparr>current_result := c, raw_results := r\<rparr>)) =
     fact_check_history (record_fact_check i result fact_check s)"
  by (simp_all add: record_fact_check_def Let_def split: option.splits)

lemma record_fact_check_history_Some:
  "fact_check_history (record_fact_check i result (Some fc) s) =
     fact_check_history s @
       [\<lparr>FactCheckEntry.iteration = i, verified = total_verified fc, removed = total_removed fc,
         reliability = reliability_score fc, removed_reasons = removed_reasons_of fc,
         summary = verification_summary fc\<rparr>]"
  by (simp add: record_fact_check_def Let_def)

text \<open>
  Claim C7. Merging one Finding into the pool of accepted findings: when its key (the
  first 80 characters of its content) is the key of a pool element, the pool, and so its
  size, is unchanged; when the key is new, the Finding is appended at the end and the
  size grows by exactly one. This holds for every pool.
\<close>

theorem merge_findings_single:
  "(take 80 (Finding.content f) \<in> (\<lambda>g. take 80 (Finding.content g)) ` set pool
      \<longrightarrow> merge_findings pool [f] = pool \<and> length (merge_findings pool [f]) = length pool) \<and>
   (take 80 (Finding.content f) \<notin> (\<lambda>g. take 80 (Finding.content g)) ` set pool
      \<longrightarrow> merge_findings pool [f] = pool @ [f] \<and>
          length (merge_findings pool [f]) = length pool + 1)"
  by (simp add: merge_findings_def)

theorem merge_findings_single_witness:
  "merge_findings [finding_a] [finding_a_again] = [finding_a] \<and>
   merge_findings [finding_a] [finding_b] = [finding_a, finding_b]"
  using merge_findings_single [of finding_a_again "[finding_a]"]
        merge_findings_single [of finding_b "[finding_a]"]
  by (simp add: finding_a_def finding_a_again_def finding_b_def ascii_def)

text \<open>
  Claim C8. Merging one Evidence into the pool of accepted evidence: when its url is the
  url of a pool element the pool is unchanged; when its url is non-empty and new, it is
  appended and the size grows by exactly one; when its url is empty it is not added,
  whatever the pool holds.
\<close>

theorem merge_evidence_single:
  "(Evidence.url e \<in> Evidence.url ` set pool
      \<longrightarrow> merge_evidence pool [e] = pool) \<and>
   (Evidence.url e \<noteq> [] \<and> Evidence.url e \<notin> Evidence.url ` set pool
      \<longrightarrow> merge_evidence pool [e] = pool @ [e] \<and>
          length (merge_evidence pool [e]) = length pool + 1) \<and>
   (Evidence.url e = [] \<longrightarrow> merge_evidence pool [e] = pool)"
  by (simp add: merge_evidence_def)

theorem merge_evidence_single_witness:
  "merge_evidence [evidence_1] [evidence_1_again] = [evidence_1] \<and>
   merge_evidence [evidence_1] [evidence_2] = [evidence_1, evidence_2] \<and>
   merge_evidence [evidence_1] [evidence_no_url] = [evidence_1] \<and>
   merge_evidence [] [evidence_no_url] = []"
  using merge_evidence_single [of evidence_1_again "[evidence_1]"]
        merge_evidence_single [of evidence_2 "[evidence_1]"]
        merge_evidence_single [of evidence_no_url "[evidence_1]"]
        merge_evidence_single [of evidence_no_url "[]"]
  by (simp add: evidence_1_def evidence_1_again_def evidence_2_def evidence_no_url_def ascii_def)


section \<open>Properties of one iteration\<close>

lemma prompt_and_call_Inr:
  "prompt_and_call built run w = (Inr x, w') \<Longrightarrow>
   \<exists>prompt. built = Inr prompt \<and> run_with_retry run prompt MAX_PARSE_RETRIES w = (Inr x, w')"
  by (auto simp: prompt_and_call_def split: sum.splits)

lemma prompt_and_call_built:
  "built = Inr prompt \<Longrightarrow>
   prompt_and_call built run w = run_with_retry run prompt MAX_PARSE_RETRIES w"
  by (simp add: prompt_and_call_def)

lemma set_iteration_number_simps:
  "should_refine (evaluation_objects (set_iteration_number r i w) r') =
     should_refine (evaluation_objects w r')"
  "refined_plan (evaluation_objects (set_iteration_number r i w) r') =
     refined_plan (evaluation_objects w r')"
  "outside (set_iteration_number r i w) = outside w"
  "EvaluationOutput.iteration_number (evaluation_objects (set_iteration_number r i w) r) = i"
  by (simp_all add: set_iteration_number_def)

lemma evaluation_values_simps:
  "evaluation_values w (record_fact_check i result fact_check s) = evaluation_values w s"
  "evaluation_values w (s\<lparr>current_result := c, raw_results := r\<rparr>) = evaluation_values w s"
  by (simp_all add: evaluation_values_def record_fact_check_frame)

text \<open>
  An iteration that does not raise built a researcher prompt and made a researcher
  call, passed the fact-check gate, built an evaluator prompt and made an evaluator
  call, and wrote the iteration number into the object that call returned; the state
  after it is the state before it with the updates listed here.
\<close>

lemma research_iteration_Inr:
  assumes it: "research_iteration T A th mx i s w = (Inr (s', stop), w')"
  shows "\<exists>prompt result w1 fact_check w2 eprompt evaluation w3.
     researcher_prompt T th i (current_plan s) (accepted_findings s) (accepted_evidence s)
        (fact_check_history s) (evaluation_values w s) = Inr prompt \<and>
     run_with_retry (researcher A) prompt MAX_PARSE_RETRIES w = (Inr result, w1) \<and>
     fact_check_step T A result w1 = (Inr fact_check, w2) \<and>
     build_evaluator_prompt T th (current_plan s) result
        (fact_check_history (record_fact_check i result fact_check s))
        (evaluation_values w2 s) i mx = Inr eprompt \<and>
     run_with_retry (evaluator A) eprompt MAX_PARSE_RETRIES w2 = (Inr evaluation, w3) \<and>
     w' = set_iteration_number evaluation i w3 \<and>
     stop = (\<not> should_refine (evaluation_objects w3 evaluation) \<or> mx \<le> i) \<and>
     current_result s' = Some result \<and>
     raw_results s' = raw_results s @ [raw_result_of i result] \<and>
     accepted_findings s' = accepted_findings (record_fact_check i result fact_check s) \<and>
     accepted_evidence s' = accepted_evidence (record_fact_check i result fact_check s) \<and>
     fact_check_history s' = fact_check_history (record_fact_check i result fact_check s) \<and>
     evaluations s' = evaluations s @ [evaluation] \<and>
     current_plan s' =
       (if stop then current_plan s
        else case refined_plan (evaluation_objects w3 evaluation) of
               Some plan \<Rightarrow> plan | None \<Rightarrow> current_plan s)"
proof -
  let ?rp = "researcher_prompt T th i (current_plan s) (accepted_findings s) (accepted_evidence s)
           (fact_check_history s) (evaluation_values w s)"
  obtain r1 w1 where c1: "prompt_and_call ?rp (researcher A) w = (r1, w1)"
    by (cases "prompt_and_call ?rp (researcher A) w") blast
  obtain result where r1: "r1 = Inr result"
    using it c1 by (cases r1) (simp_all add: research_iteration_def)
  obtain prompt where p1: "?rp = Inr prompt"
      and p2: "run_with_retry (researcher A) prompt MAX_PARSE_RETRIES w = (Inr result, w1)"
    using prompt_and_call_Inr [OF c1 [unfolded r1]] by blast
  let ?s1 = "s\<lparr>current_result := Some result,
                raw_results := raw_results s @ [raw_result_of i result]\<rparr>"
  obtain r2 w2 where c2: "fact_check_step T A result w1 = (r2, w2)"
    by (cases "fact_check_step T A result w1") blast
  obtain fact_check where r2: "r2 = Inr fact_check"
    using it c1 r1 c2 by (cases r2) (simp_all add: research_iteration_def)
  let ?s2 = "record_fact_check i result fact_check ?s1"
  let ?ep = "build_evaluator_prompt T th (current_plan ?s2) result (fact_check_history ?s2)
               (evaluation_values w2 ?s2) i mx"
  obtain r3 w3 where c3: "prompt_and_call ?ep (evaluator A) w2 = (r3, w3)"
    by (cases "prompt_and_call ?ep (evaluator A) w2") blast
  obtain evaluation where r3: "r3 = Inr evaluation"
    using it c1 r1 c2 r2 c3 by (cases r3) (simp_all add: research_iteration_def Let_def)
  have ep: "?ep = build_evaluator_prompt T th (current_plan s) result
           (fact_check_history (record_fact_check i result fact_check s))
           (evaluation_values w2 s) i mx"
    by (simp add: record_fact_check_frame record_fact_check_pools_update evaluation_values_simps)
  obtain eprompt where q1: "?ep = Inr eprompt"
      and q2: "run_with_retry (evaluator A) eprompt MAX_PARSE_RETRIES w2 = (Inr evaluation, w3)"
    using prompt_and_call_Inr [OF c3 [unfolded r3]] by blast
  let ?w4 = "set_iteration_number evaluation i w3"
  let ?s3 = "?s2\<lparr>evaluations := evaluations ?s2 @ [evaluation]\<rparr>"
  have res: "(if \<not> should_refine (evaluation_objects ?w4 evaluation) \<or> mx \<le> i
       then (Inr (?s3, True), ?w4)
       else (case refined_plan (evaluation_objects ?w4 evaluation) of
               Some plan \<Rightarrow> (Inr (?s3\<lparr>current_plan := plan\<rparr>, False), ?w4)
             | None \<Rightarrow> (Inr (?s3, False), ?w4))) = (Inr (s', stop), w')"
    using it c1 r1 c2 r2 c3 r3
    by (auto simp: research_iteration_def Let_def split: if_splits option.splits)
  have w: "w' = ?w4"
    using res by (auto split: if_splits option.splits)
  have st: "stop = (\<not> should_refine (evaluation_objects w3 evaluation) \<or> mx \<le> i)"
    using res by (auto simp: set_iteration_number_simps split: if_splits option.splits)
  have s': "s' = (if stop then ?s3
                  else case refined_plan (evaluation_objects w3 evaluation) of
                         Some plan \<Rightarrow> ?s3\<lparr>current_plan := plan\<rparr> | None \<Rightarrow> ?s3)"
    using res by (auto simp: set_iteration_number_simps split: if_splits option.splits)
  have f1: "current_result s' = Some result"
    by (simp add: s' record_fact_check_frame split: option.splits)
  have f2: "raw_results s' = raw_results s @ [raw_result_of i result]"
    by (simp add: s' record_fact_check_frame split: option.splits)
  have f3: "accepted_findings s' = accepted_findings (record_fact_check i result fact_check s)"
    by (simp add: s' record_fact_check_pools_update split: option.splits)
  have f4: "accepted_evidence s' = accepted_evidence (record_fact_check i result fact_check s)"
    by (simp add: s' record_fact_check_pools_update split: option.splits)
  have f5: "fact_check_history s' = fact_check_history (record_fact_check i result fact_check s)"
    by (simp add: s' record_fact_check_pools_update split: option.splits)
  have f6: "evaluations s' = evaluations s @ [evaluation]"
    by (simp add: s' record_fact_check_frame split: option.splits)
  have f7: "current_plan s' =
       (if stop then current_plan s
        else case refined_plan (evaluation_objects w3 evaluation) of
               Some plan \<Rightarrow> plan | None \<Rightarrow> current_plan s)"
    by (simp add: s' record_fact_check_frame split: option.splits)
  from p1 p2 c2 r2 q1 [unfolded ep] q2 w st f1 f2 f3 f4 f5 f6 f7 show ?thesis
    by (intro exI [of _ prompt] exI [of _ result] exI [of _ w1] exI [of _ fact_check]
              exI [of _ w2] exI [of _ eprompt] exI [of _ evaluation] exI [of _ w3])
       simp
qed

lemma fact_check_step_cases:
  assumes "fact_check_step T A result w1 = (Inr fact_check, w2)"
  shows "(fact_check = None \<and> w2 = w1 \<and> ResearchResultOutput.findings result = [] \<and>
            ResearchResultOutput.evidence result = []) \<or>
         (\<exists>fc fprompt. fact_check = Some fc \<and> fact_check_prompt T result = Inr fprompt \<and>
            run_with_retry (fact_checker A) fprompt MAX_PARSE_RETRIES w1 = (Inr fc, w2))"
  using assms
  by (auto simp: fact_check_step_def Let_def prompt_and_call_def
           split: if_splits prod.splits sum.splits)

lemma fact_check_step_empty:
  "ResearchResultOutput.findings result = [] \<Longrightarrow> ResearchResultOutput.evidence result = [] \<Longrightarrow>
   fact_check_step T A result w = (Inr None, w)"
  by (simp add: fact_check_step_def)

lemma raw_result_of_evidence:
  "RawResult.evidence (raw_result_of i result) = ResearchResultOutput.evidence result"
  by (simp add: raw_result_of_def map_idI)

lemma raw_result_of_findings:
  "RawResult.findings (raw_result_of i result) = ResearchResultOutput.findings result"
  by (simp add: raw_result_of_def map_idI)

text \<open>
  Claim C1. In every iteration that completes, the findings and evidence appended to the
  accumulation pools are elements of the findings and evidence that the researcher call
  of that iteration returned: a finding is selected when the first 80 characters of its
  content are in the verified-key set of the verdict, an evidence item when its url is
  in the verified-url set. So the url of every accepted evidence item is the url of an
  item of that iteration's raw record, and nothing the fact-checker returned (an echoed
  or replaced copy) is put into a pool. When the fact-check was skipped nothing is
  appended.
\<close>

theorem accepted_items_come_from_researcher_output:
  assumes it: "research_iteration T A th mx i s w = (Inr (s', stop), w')"
  shows "\<exists>prompt result w1 fact_check w2 nf ne.
     researcher_prompt T th i (current_plan s) (accepted_findings s) (accepted_evidence s)
        (fact_check_history s) (evaluation_values w s) = Inr prompt \<and>
     run_with_retry (researcher A) prompt MAX_PARSE_RETRIES w = (Inr result, w1) \<and>
     fact_check_step T A result w1 = (Inr fact_check, w2) \<and>
     raw_results s' = raw_results s @ [raw_result_of i result] \<and>
     accepted_findings s' = accepted_findings s @ nf \<and>
     accepted_evidence s' = accepted_evidence s @ ne \<and>
     (\<forall>f\<in>set nf. f \<in> set (ResearchResultOutput.findings result) \<and>
        (\<exists>fc. fact_check = Some fc \<and> take 80 (Finding.content f) \<in> verified_contents_of fc)) \<and>
     (\<forall>e\<in>set ne. e \<in> set (ResearchResultOutput.evidence result) \<and>
        (\<exists>fc. fact_check = Some fc \<and> Evidence.url e \<in> verified_urls_of fc) \<and>
        (\<exists>e0\<in>set (RawResult.evidence (raw_result_of i result)). Evidence.url e = Evidence.url e0))"
proof -
  obtain prompt result w1 fact_check w2 where
    c0: "researcher_prompt T th i (current_plan s) (accepted_findings s) (accepted_evidence s)
        (fact_check_history s) (evaluation_values w s) = Inr prompt" and
    c1: "run_with_retry (researcher A) prompt MAX_PARSE_RETRIES w = (Inr result, w1)" and
    c2: "fact_check_step T A result w1 = (Inr fact_check, w2)" and
    raw: "raw_results s' = raw_results s @ [raw_result_of i result]" and
    af: "accepted_findings s' = accepted_findings (record_fact_check i result fact_check s)" and
    ae: "accepted_evidence s' = accepted_evidence (record_fact_check i result fact_check s)"
    using research_iteration_Inr [OF it] by (elim exE conjE) (rule that; assumption)
  show ?thesis
  proof (cases fact_check)
    case None
    have "accepted_findings s' = accepted_findings s @ []" "accepted_evidence s' = accepted_evidence s @ []"
      using af ae None by (simp_all add: record_fact_check_None)
    with c0 c1 c2 raw show ?thesis
      by (intro exI [of _ prompt] exI [of _ result] exI [of _ w1] exI [of _ fact_check]
                exI [of _ w2] exI [of _ "[]"]) simp
  next
    case (Some fc)
    obtain nf ne where
      n1: "accepted_findings (record_fact_check i result (Some fc) s) = accepted_findings s @ nf" and
      n2: "accepted_evidence (record_fact_check i result (Some fc) s) = accepted_evidence s @ ne" and
      n3: "\<forall>f\<in>set nf. f \<in> set (ResearchResultOutput.findings result) \<and>
                  take 80 (Finding.content f) \<in> verified_contents_of fc" and
      n4: "\<forall>e\<in>set ne. e \<in> set (ResearchResultOutput.evidence result) \<and>
                  Evidence.url e \<in> verified_urls_of fc \<and> Evidence.url e \<noteq> []"
      using record_fact_check_Some [of i result fc s] by blast
    have n5: "\<forall>e\<in>set ne. \<exists>e0\<in>set (RawResult.evidence (raw_result_of i result)).
                 Evidence.url e = Evidence.url e0"
      using n4 by (auto simp: raw_result_of_evidence)
    from c0 c1 c2 raw af ae Some n1 n2 n3 n4 n5 show ?thesis
      by (intro exI [of _ prompt] exI [of _ result] exI [of _ w1] exI [of _ fact_check]
                exI [of _ w2] exI [of _ nf] exI [of _ ne]) simp
  qed
qed

text \<open>
  Claim C3, amended. For every iteration whose fact-check call returns a verdict, the
  appended history entry carries the iteration number and copies \<open>total_verified\<close>,
  \<open>total_removed\<close> and \<open>reliability_score\<close> of the verdict unchanged; the reliability
  lies in [0, 1] whenever the verdict satisfies the schema constraint on
  \<open>reliability_score\<close>.
\<close>

theorem history_entry_copies_fact_check_scores:
  assumes it: "research_iteration T A th mx i s w = (Inr (s', stop), w')"
  shows "\<exists>prompt result w1 fact_check w2 entry.
     researcher_prompt T th i (current_plan s) (accepted_findings s) (accepted_evidence s)
        (fact_check_history s) (evaluation_values w s) = Inr prompt \<and>
     run_with_retry (researcher A) prompt MAX_PARSE_RETRIES w = (Inr result, w1) \<and>
     fact_check_step T A result w1 = (Inr fact_check, w2) \<and>
     fact_check_history s' = fact_check_history s @ [entry] \<and>
     FactCheckEntry.iteration entry = i \<and>
     (\<forall>fc. fact_check = Some fc \<longrightarrow>
        (\<exists>fprompt. fact_check_prompt T result = Inr fprompt \<and>
           run_with_retry (fact_checker A) fprompt MAX_PARSE_RETRIES w1 = (Inr fc, w2)) \<and>
        verified entry = total_verified fc \<and>
        removed entry = total_removed fc \<and>
        reliability entry = reliability_score fc \<and>
        (valid_FactCheckResultOutput fc \<longrightarrow> 0 \<le> reliability entry \<and> reliability entry \<le> 1))"
proof -
  obtain prompt result w1 fact_check w2 where
    c0: "researcher_prompt T th i (current_plan s) (accepted_findings s) (accepted_evidence s)
        (fact_check_history s) (evaluation_values w s) = Inr prompt" and
    c1: "run_with_retry (researcher A) prompt MAX_PARSE_RETRIES w = (Inr result, w1)" and
    c2: "fact_check_step T A result w1 = (Inr fact_check, w2)" and
    h: "fact_check_history s' = fact_check_history (record_fact_check i result fact_check s)"
    using research_iteration_Inr [OF it] by (elim exE conjE) (rule that; assumption)
  show ?thesis
  proof (cases fact_check)
    case None
    with c0 c1 c2 h show ?thesis
      by (intro exI [of _ prompt] exI [of _ result] exI [of _ w1] exI [of _ fact_check]
            exI [of _ w2]
            exI [of _ "\<lparr>FactCheckEntry.iteration = i, verified = 0, removed = 0, reliability = 0,
                        removed_reasons = [], summary = skipped_summary\<rparr>"])
         (simp add: record_fact_check_None)
  next
    case (Some fc)
    have call: "\<exists>fprompt. fact_check_prompt T result = Inr fprompt \<and>
          run_with_retry (fact_checker A) fprompt MAX_PARSE_RETRIES w1 = (Inr fc, w2)"
      using fact_check_step_cases [OF c2] Some by auto
    from c0 c1 c2 h Some call show ?thesis
      by (intro exI [of _ prompt] exI [of _ result] exI [of _ w1] exI [of _ fact_check]
            exI [of _ w2]
            exI [of _ "\<lparr>FactCheckEntry.iteration = i, verified = total_verified fc,
                        removed = total_removed fc, reliability = reliability_score fc,
                        removed_reasons = removed_reasons_of fc,
                        summary = verification_summary fc\<rparr>"])
         (simp add: record_fact_check_history_Some valid_FactCheckResultOutput_def)
  qed
qed

lemma removal_rate_of_skipped:
  "removal_rate_of (history @
      [\<lparr>FactCheckEntry.iteration = i, verified = 0, removed = 0, reliability = 0,
        removed_reasons = [], summary = sm\<rparr>]) = Inr None"
  by (simp add: removal_rate_of_def)

lemma research_iteration_skip:
  assumes c0: "researcher_prompt T th i (current_plan s) (accepted_findings s)
        (accepted_evidence s) (fact_check_history s) (evaluation_values w s) = Inr prompt"
    and c1: "run_with_retry (researcher A) prompt MAX_PARSE_RETRIES w = (Inr result, w1)"
    and f: "ResearchResultOutput.findings result = []"
    and e: "ResearchResultOutput.evidence result = []"
  shows "research_iteration T A th mx i s w =
     (let s2 = record_fact_check i result None
                 (s\<lparr>current_result := Some result,
                    raw_results := raw_results s @ [raw_result_of i result]\<rparr>)
      in case prompt_and_call
                (build_evaluator_prompt T th (current_plan s2) result (fact_check_history s2)
                   (evaluation_values w1 s2) i mx) (evaluator A) w1 of
           (Inl e, w3) \<Rightarrow> (Inl e, w3)
         | (Inr evaluation, w3) \<Rightarrow>
             (let w4 = set_iteration_number evaluation i w3;
                  s3 = s2\<lparr>evaluations := evaluations s2 @ [evaluation]\<rparr>
              in if \<not> should_refine (evaluation_objects w4 evaluation) \<or> i \<ge> mx
                 then (Inr (s3, True), w4)
                 else (case refined_plan (evaluation_objects w4 evaluation) of
                         Some plan \<Rightarrow> (Inr (s3\<lparr>current_plan := plan\<rparr>, False), w4)
                       | None \<Rightarrow> (Inr (s3, False), w4))))"
  by (simp add: research_iteration_def prompt_and_call_built [OF c0] c1
        fact_check_step_empty [OF f e] Let_def)

text \<open>
  Claim C9. When the researcher call of an iteration returns no findings and no
  evidence, the fact-check gate returns \<open>None\<close> and leaves the world untouched, and the
  iteration is the same whatever the fact-checker is (it is never called). If the
  iteration completes, the entry appended to the history has \<open>verified = 0\<close>,
  \<open>removed = 0\<close>, \<open>reliability = 0\<close>, no removal reasons and the skipped summary, whose
  text is written out code point by code point, and the pools are unchanged. The skip
  raises nothing: if the iteration raises, the exception comes from building the
  evaluator prompt or from the evaluator call that follows, and the removal-rate
  division in that prompt is not reached for the skipped entry.
\<close>

theorem empty_researcher_output_skips_fact_check:
  assumes c0: "researcher_prompt T th i (current_plan s) (accepted_findings s)
        (accepted_evidence s) (fact_check_history s) (evaluation_values w s) = Inr prompt"
    and c1: "run_with_retry (researcher A) prompt MAX_PARSE_RETRIES w = (Inr result, w1)"
    and f: "ResearchResultOutput.findings result = []"
    and e: "ResearchResultOutput.evidence result = []"
  shows "fact_check_step T A result w1 = (Inr None, w1) \<and>
     (\<forall>other. research_iteration T (A\<lparr>fact_checker := other\<rparr>) th mx i s w =
               research_iteration T A th mx i s w) \<and>
     (\<forall>s' stop w'. research_iteration T A th mx i s w = (Inr (s', stop), w') \<longrightarrow>
        fact_check_history s' = fact_check_history s @
          [\<lparr>FactCheckEntry.iteration = i, verified = 0, removed = 0, reliability = 0,
            removed_reasons = [],
            summary =
          [12501, 12449, 12463, 12488, 12481, 12455, 12483, 12463, 12434, 12473, 12461,
          12483, 12503, 65288, 101, 118, 105, 100, 101, 110, 99, 101, 47, 102, 105, 110,
          100, 105, 110, 103, 115, 12364, 31354, 65289]\<rparr>] \<and>
        accepted_findings s' = accepted_findings s \<and>
        accepted_evidence s' = accepted_evidence s) \<and>
     (\<forall>err w'. research_iteration T A th mx i s w = (Inl err, w') \<longrightarrow>
        prompt_and_call
          (build_evaluator_prompt T th (current_plan s) result
             (fact_check_history s @
                [\<lparr>FactCheckEntry.iteration = i, verified = 0, removed = 0, reliability = 0,
                  removed_reasons = [], summary = skipped_summary\<rparr>])
             (evaluation_values w1 s) i mx) (evaluator A) w1 = (Inl err, w')) \<and>
     removal_rate_of (fact_check_history s @
          [\<lparr>FactCheckEntry.iteration = i, verified = 0, removed = 0, reliability = 0,
            removed_reasons = [], summary = skipped_summary\<rparr>]) = Inr None"
proof -
  let ?skipped = "\<lparr>FactCheckEntry.iteration = i, verified = 0, removed = 0, reliability = 0,
            removed_reasons = [], summary = skipped_summary\<rparr>"
  have p1: "fact_check_step T A result w1 = (Inr None, w1)"
    by (rule fact_check_step_empty [OF f e])
  have p2: "research_iteration T (A\<lparr>fact_checker := other\<rparr>) th mx i s w =
        research_iteration T A th mx i s w" for other
  proof -
    have c1': "run_with_retry (researcher (A\<lparr>fact_checker := other\<rparr>)) prompt
                 MAX_PARSE_RETRIES w = (Inr result, w1)"
      using c1 by simp
    show ?thesis
      by (simp add: research_iteration_skip [OF c0 c1' f e] research_iteration_skip [OF c0 c1 f e])
  qed
  have p3: "fact_check_history s' = fact_check_history s @ [?skipped] \<and>
        accepted_findings s' = accepted_findings s \<and>
        accepted_evidence s' = accepted_evidence s"
    if it: "research_iteration T A th mx i s w = (Inr (s', stop), w')" for s' stop w'
  proof -
    obtain prompt' result' w1' fact_check w2 where
      d0: "researcher_prompt T th i (current_plan s) (accepted_findings s) (accepted_evidence s)
             (fact_check_history s) (evaluation_values w s) = Inr prompt'" and
      d1: "run_with_retry (researcher A) prompt' MAX_PARSE_RETRIES w = (Inr result', w1')" and
      d2: "fact_check_step T A result' w1' = (Inr fact_check, w2)" and
      af: "accepted_findings s' = accepted_findings (record_fact_check i result' fact_check s)" and
      ae: "accepted_evidence s' = accepted_evidence (record_fact_check i result' fact_check s)" and
      h: "fact_check_history s' = fact_check_history (record_fact_check i result' fact_check s)"
      using research_iteration_Inr [OF it] by (elim exE conjE) (rule that; assumption)
    from c0 d0 have "prompt' = prompt" by simp
    with c1 d1 have eq: "result' = result" "w1' = w1" by simp_all
    with d2 p1 have "fact_check = None" by simp
    with af ae h eq show ?thesis by (simp add: record_fact_check_None)
  qed
  have p4: "prompt_and_call
          (build_evaluator_prompt T th (current_plan s) result (fact_check_history s @ [?skipped])
             (evaluation_values w1 s) i mx) (evaluator A) w1 = (Inl err, w')"
    if it: "research_iteration T A th mx i s w = (Inl err, w')" for err w'
    using it unfolding research_iteration_skip [OF c0 c1 f e]
    by (auto simp: Let_def record_fact_check_None evaluation_values_def
             split: prod.splits sum.splits if_splits option.splits)
  have p5: "removal_rate_of (fact_check_history s @ [?skipped]) = Inr None"
    by (rule removal_rate_of_skipped)
  have lit: "skipped_summary =
          [12501, 12449, 12463, 12488, 12481, 12455, 12483, 12463, 12434, 12473, 12461,
          12483, 12503, 65288, 101, 118, 105, 100, 101, 110, 99, 101, 47, 102, 105, 110,
          100, 105, 110, 103, 115, 12364, 31354, 65289]"
    by (simp add: skipped_summary_def)
  from p1 p2 p3 p4 p5 show ?thesis unfolding lit [symmetric] by blast
qed


section \<open>Runs that do not raise\<close>


lemma true_div_at_most_one:
  assumes "0 \<le> v" and "0 < r"
  shows "true_div r (max (v + r) 1) = Inr (real_of_int r / real_of_int (max (v + r) 1))"
proof -
  have m: "max (v + r) 1 = v + r" using assms by simp
  have "real_of_int r / real_of_int (v + r) \<le> 1" using assms by simp
  moreover have "0 \<le> real_of_int r / real_of_int (v + r)" using assms by simp
  moreover have "(1::real) < 2 ^ 1024 - 2 ^ 970" by simp
  ultimately have "\<not> 2 ^ 1024 - 2 ^ 970 \<le> \<bar>real_of_int r / real_of_int (v + r)\<bar>"
    by linarith
  then show ?thesis using assms m by (simp add: true_div_def)
qed








section \<open>Properties of the loop and of the whole run\<close>

lemma record_fact_check_iterations:
  "map FactCheckEntry.iteration (fact_check_history (record_fact_check i result fact_check s)) =
     map FactCheckEntry.iteration (fact_check_history s) @ [i]"
  by (cases fact_check) (simp_all add: record_fact_check_None record_fact_check_history_Some)


lemma research_iteration_counts:
  assumes it: "research_iteration T A th mx i s w = (Inr (s', stop), w')"
  shows "length (evaluations s') = length (evaluations s) + 1"
    and "map RawResult.iteration (raw_results s') = map RawResult.iteration (raw_results s) @ [i]"
    and "map FactCheckEntry.iteration (fact_check_history s') =
           map FactCheckEntry.iteration (fact_check_history s) @ [i]"
proof -
  obtain result fact_check evaluation where
    ev: "evaluations s' = evaluations s @ [evaluation]" and
    raw: "raw_results s' = raw_results s @ [raw_result_of i result]" and
    fch: "fact_check_history s' = fact_check_history (record_fact_check i result fact_check s)"
    using research_iteration_Inr [OF it] by (elim exE conjE) (rule that; assumption)
  show "length (evaluations s') = length (evaluations s) + 1" using ev by simp
  show "map RawResult.iteration (raw_results s') = map RawResult.iteration (raw_results s) @ [i]"
    using raw by (simp add: raw_result_of_def)
  show "map FactCheckEntry.iteration (fact_check_history s') =
           map FactCheckEntry.iteration (fact_check_history s) @ [i]"
    using fch by (simp add: record_fact_check_iterations)
qed

lemma research_iteration_last_stops:
  assumes it: "research_iteration T A th mx i s w = (Inr (s', stop), w')" and "mx \<le> i"
  shows "stop"
proof -
  obtain evaluation and w3 :: "'a world" where
    "stop = (\<not> should_refine (evaluation_objects w3 evaluation) \<or> mx \<le> i)"
    using research_iteration_Inr [OF it] by (elim exE conjE) (rule that; assumption)
  with assms(2) show ?thesis by simp
qed

text \<open>
  The loop as a chain of iterations: \<open>tr\<close> lists the state and the world after each
  iteration that ran.
\<close>

lemma iterate_trace:
  "iterate T A th mx js s w = (Inr s', w') \<Longrightarrow> js \<noteq> [] \<Longrightarrow>
   \<exists>tr. tr \<noteq> [] \<and> length tr \<le> length js \<and> last tr = (s', w') \<and>
     (\<forall>k<length tr. \<exists>stop.
        research_iteration T A th mx (js ! k) (fst (((s, w) # tr) ! k)) (snd (((s, w) # tr) ! k)) =
          (Inr (fst (tr ! k), stop), snd (tr ! k)) \<and>
        (k + 1 < length tr \<longrightarrow> \<not> stop) \<and>
        (k + 1 = length tr \<longrightarrow> stop \<or> length tr = length js)) \<and>
     length (evaluations s') = length (evaluations s) + length tr \<and>
     map RawResult.iteration (raw_results s') =
       map RawResult.iteration (raw_results s) @ take (length tr) js \<and>
     map FactCheckEntry.iteration (fact_check_history s') =
       map FactCheckEntry.iteration (fact_check_history s) @ take (length tr) js"
proof (induction js arbitrary: s w)
  case Nil
  then show ?case by simp
next
  case (Cons i rest)
  obtain r1 w1 where r: "research_iteration T A th mx i s w = (r1, w1)"
    by (cases "research_iteration T A th mx i s w") blast
  obtain s1 stop where r1: "r1 = Inr (s1, stop)"
    using Cons.prems(1) r by (cases r1) auto
  note it = r [unfolded r1]
  note cnt = research_iteration_counts [OF it]
  show ?case
  proof (cases "stop \<or> rest = []")
    case True
    then have s': "s' = s1" "w' = w1" using Cons.prems(1) r r1 by (auto split: if_splits)
    have step: "\<forall>k<length [(s1, w1)]. \<exists>stop.
        research_iteration T A th mx ((i # rest) ! k) (fst (((s, w) # [(s1, w1)]) ! k))
            (snd (((s, w) # [(s1, w1)]) ! k)) =
          (Inr (fst ([(s1, w1)] ! k), stop), snd ([(s1, w1)] ! k)) \<and>
        (k + 1 < length [(s1, w1)] \<longrightarrow> \<not> stop) \<and>
        (k + 1 = length [(s1, w1)] \<longrightarrow> stop \<or> length [(s1, w1)] = length (i # rest))"
      using it True by (intro allI impI exI [of _ stop]) auto
    show ?thesis
      using s' cnt step by (intro exI [of _ "[(s1, w1)]"]) simp
  next
    case False
    then have go: "iterate T A th mx rest s1 w1 = (Inr s', w')" and ne: "rest \<noteq> []"
        and ns: "\<not> stop"
      using Cons.prems(1) r r1 by auto
    obtain tr where
      t1: "tr \<noteq> []" and t2: "length tr \<le> length rest" and t3: "last tr = (s', w')" and
      t4: "\<forall>k<length tr. \<exists>stop.
        research_iteration T A th mx (rest ! k) (fst (((s1, w1) # tr) ! k))
            (snd (((s1, w1) # tr) ! k)) =
          (Inr (fst (tr ! k), stop), snd (tr ! k)) \<and>
        (k + 1 < length tr \<longrightarrow> \<not> stop) \<and>
        (k + 1 = length tr \<longrightarrow> stop \<or> length tr = length rest)" and
      t5: "length (evaluations s') = length (evaluations s1) + length tr" and
      t6: "map RawResult.iteration (raw_results s') =
             map RawResult.iteration (raw_results s1) @ take (length tr) rest" and
      t7: "map FactCheckEntry.iteration (fact_check_history s') =
             map FactCheckEntry.iteration (fact_check_history s1) @ take (length tr) rest"
      using Cons.IH [OF go ne] by (elim exE conjE) (rule that; assumption)
    let ?tr = "(s1, w1) # tr"
    have step: "\<exists>stop.
        research_iteration T A th mx ((i # rest) ! k) (fst (((s, w) # ?tr) ! k))
            (snd (((s, w) # ?tr) ! k)) =
          (Inr (fst (?tr ! k), stop), snd (?tr ! k)) \<and>
        (k + 1 < length ?tr \<longrightarrow> \<not> stop) \<and>
        (k + 1 = length ?tr \<longrightarrow> stop \<or> length ?tr = length (i # rest))"
      if k: "k < length ?tr" for k
    proof (cases k)
      case 0
      then show ?thesis using it ns t1 by (intro exI [of _ stop]) auto
    next
      case (Suc k')
      then have "k' < length tr" using k by simp
      with t4 obtain stop' where
        "research_iteration T A th mx (rest ! k') (fst (((s1, w1) # tr) ! k'))
            (snd (((s1, w1) # tr) ! k')) =
          (Inr (fst (tr ! k'), stop'), snd (tr ! k'))"
        "k' + 1 < length tr \<longrightarrow> \<not> stop'"
        "k' + 1 = length tr \<longrightarrow> stop' \<or> length tr = length rest"
        by blast
      then show ?thesis using Suc by (intro exI [of _ stop']) simp
    qed
    have a3: "last ?tr = (s', w')" using t1 t3 by simp
    have a5: "length (evaluations s') = length (evaluations s) + length ?tr"
      using t5 cnt(1) by simp
    have a6: "map RawResult.iteration (raw_results s') =
             map RawResult.iteration (raw_results s) @ take (length ?tr) (i # rest)"
      using t6 cnt(2) by simp
    have a7: "map FactCheckEntry.iteration (fact_check_history s') =
             map FactCheckEntry.iteration (fact_check_history s) @ take (length ?tr) (i # rest)"
      using t7 cnt(3) by simp
    have a2: "length ?tr \<le> length (i # rest)" using t2 by simp
    from a2 a3 a5 a6 a7 step show ?thesis
      by (intro exI [of _ ?tr] conjI allI impI) simp_all
  qed
qed

lemma take_upto: "1 \<le> n \<Longrightarrow> n \<le> mx \<Longrightarrow> take (nat n) [1..mx] = [1..n]"
proof -
  assume n: "1 \<le> n" "n \<le> mx"
  have "[1..mx] = [1..n] @ [n + 1..mx]" using n by (intro upto_split2) auto
  moreover have "length [1..n] = nat n" using n by simp
  ultimately show ?thesis by (metis append_eq_conv_conj)
qed

lemma research_loop_trace:
  assumes loop: "research_loop T A th mx plan w = (Inr s, w')" and mx: "1 \<le> mx"
  shows "\<exists>tr. tr \<noteq> [] \<and> int (length tr) \<le> mx \<and> last tr = (s, w') \<and>
     (\<forall>k<length tr.
        research_iteration T A th mx (int k + 1) (fst (((initial_state plan, w) # tr) ! k))
            (snd (((initial_state plan, w) # tr) ! k)) =
          (Inr (fst (tr ! k), k + 1 = length tr), snd (tr ! k))) \<and>
     length (evaluations s) = length tr \<and>
     map RawResult.iteration (raw_results s) = [1..int (length tr)] \<and>
     map FactCheckEntry.iteration (fact_check_history s) = [1..int (length tr)]"
proof -
  have ne: "[1..mx] \<noteq> []" using mx by simp
  have len: "length [1..mx] = nat mx" using mx by simp
  obtain tr where
    t1: "tr \<noteq> []" and t2: "length tr \<le> length [1..mx]" and t3: "last tr = (s, w')" and
    t4: "\<forall>k<length tr. \<exists>stop.
        research_iteration T A th mx ([1..mx] ! k) (fst (((initial_state plan, w) # tr) ! k))
            (snd (((initial_state plan, w) # tr) ! k)) =
          (Inr (fst (tr ! k), stop), snd (tr ! k)) \<and>
        (k + 1 < length tr \<longrightarrow> \<not> stop) \<and>
        (k + 1 = length tr \<longrightarrow> stop \<or> length tr = length [1..mx])" and
    t5: "length (evaluations s) = length (evaluations (initial_state plan)) + length tr" and
    t6: "map RawResult.iteration (raw_results s) =
           map RawResult.iteration (raw_results (initial_state plan)) @ take (length tr) [1..mx]" and
    t7: "map FactCheckEntry.iteration (fact_check_history s) =
           map FactCheckEntry.iteration (fact_check_history (initial_state plan)) @
           take (length tr) [1..mx]"
    using iterate_trace [OF loop [unfolded research_loop_def] ne]
    by (elim exE conjE) (rule that; assumption)
  have le: "int (length tr) \<le> mx" using t2 len mx by (simp add: le_nat_iff)
  have tk: "take (length tr) [1..mx] = [1..int (length tr)]"
    using take_upto [of "int (length tr)" mx] le t1 by (simp add: Suc_le_eq)
  have step: "research_iteration T A th mx (int k + 1) (fst (((initial_state plan, w) # tr) ! k))
            (snd (((initial_state plan, w) # tr) ! k)) =
          (Inr (fst (tr ! k), k + 1 = length tr), snd (tr ! k))"
    if k: "k < length tr" for k
  proof -
    have nth: "[1..mx] ! k = int k + 1"
      using k le by simp
    obtain stop where
      it: "research_iteration T A th mx (int k + 1) (fst (((initial_state plan, w) # tr) ! k))
            (snd (((initial_state plan, w) # tr) ! k)) =
          (Inr (fst (tr ! k), stop), snd (tr ! k))" and
      n1: "k + 1 < length tr \<longrightarrow> \<not> stop" and
      n2: "k + 1 = length tr \<longrightarrow> stop \<or> length tr = length [1..mx]"
      using t4 k nth by (metis (no_types, lifting))
    have "stop = (k + 1 = length tr)"
    proof (cases "k + 1 = length tr")
      case True
      show ?thesis
      proof (cases stop)
        case True
        with \<open>k + 1 = length tr\<close> show ?thesis by simp
      next
        case False
        with True n2 have "length tr = nat mx" using len by simp
        with True have "mx \<le> int k + 1" by simp
        from research_iteration_last_stops [OF it this] False show ?thesis by simp
      qed
    next
      case False
      then have "k + 1 < length tr" using k by simp
      with n1 False show ?thesis by simp
    qed
    with it show ?thesis by simp
  qed
  from t1 le t3 t5 t6 t7 tk step show ?thesis
    by (intro exI [of _ tr] conjI allI impI) (simp_all add: initial_state_def)
qed

lemma run_agentic_research_Inr:
  assumes "run_agentic_research T A th mx verbose w = (Inr out, w')"
  shows "\<exists>plan w1 s. planning T A th w = (Inr plan, w1) \<and>
           research_loop T A th mx plan w1 = (Inr s, w') \<and>
           out = (current_plan s, finalize s, evaluation_values w' s, fact_check_history s,
                  raw_results s)"
  using assms
  by (auto simp: run_agentic_research_def split: prod.splits sum.splits if_splits)

lemma finalize_Some:
  "current_result s = Some r \<Longrightarrow>
   finalize s = Some (r\<lparr>ResearchResultOutput.findings := accepted_findings s,
                        ResearchResultOutput.evidence := accepted_evidence s\<rparr>)"
  by (simp add: finalize_def)

text \<open>
  The state a loop of at least one iteration ends in is the state after its last
  iteration, whose number is the number of raw records.
\<close>

lemma research_loop_last_iteration:
  assumes loop: "research_loop T A th mx plan w = (Inr s, w')" and mx: "1 \<le> mx"
  shows "raw_results s \<noteq> [] \<and>
     (\<exists>s0 w0. research_iteration T A th mx (int (length (raw_results s))) s0 w0 =
                 (Inr (s, True), w'))"
proof -
  obtain tr where
    t1: "tr \<noteq> []" and t3: "last tr = (s, w')" and
    t4: "\<forall>k<length tr.
        research_iteration T A th mx (int k + 1) (fst (((initial_state plan, w) # tr) ! k))
            (snd (((initial_state plan, w) # tr) ! k)) =
          (Inr (fst (tr ! k), k + 1 = length tr), snd (tr ! k))" and
    t6: "map RawResult.iteration (raw_results s) = [1..int (length tr)]"
    using research_loop_trace [OF loop mx] by (elim exE conjE) (rule that; assumption)
  have "length (map RawResult.iteration (raw_results s)) = length [1..int (length tr)]"
    using t6 by simp
  then have n: "length (raw_results s) = length tr" by simp
  let ?k = "length tr - 1"
  have k: "?k < length tr" "?k + 1 = length tr" using t1 by simp_all
  have l: "tr ! ?k = (s, w')" using t1 t3 by (simp add: last_conv_nth)
  have i: "int ?k + 1 = int (length tr)" using k(2) by linarith
  have "research_iteration T A th mx (int ?k + 1) (fst (((initial_state plan, w) # tr) ! ?k))
            (snd (((initial_state plan, w) # tr) ! ?k)) =
          (Inr (fst (tr ! ?k), ?k + 1 = length tr), snd (tr ! ?k))"
    using t4 k(1) by blast
  then have
    "research_iteration T A th mx (int (length tr)) (fst (((initial_state plan, w) # tr) ! ?k))
            (snd (((initial_state plan, w) # tr) ! ?k)) = (Inr (s, True), w')"
    unfolding i l using k(2) by simp
  then have "\<exists>s0 w0. research_iteration T A th mx (int (length (raw_results s))) s0 w0 =
                 (Inr (s, True), w')"
    unfolding n by blast
  moreover have "raw_results s \<noteq> []" using n t1 by auto
  ultimately show ?thesis by simp
qed




text \<open>
  Claim C2. For every run with \<open>max_iterations \<ge> 1\<close> that returns, the findings of the
  final result are the pool \<open>accepted_findings\<close> and its evidence is the pool
  \<open>accepted_evidence\<close>, in pool order, as the loop left them; an empty pool gives an
  empty field, whatever the last researcher output held.
\<close>

theorem final_result_holds_accumulated_pools:
  assumes run: "run_agentic_research T A th mx verbose w =
                  (Inr (final_plan, final_result, evals, history, raw), w')"
    and mx: "1 \<le> mx"
  shows "\<exists>plan w1 s r.
     planning T A th w = (Inr plan, w1) \<and>
     research_loop T A th mx plan w1 = (Inr s, w') \<and>
     final_result = Some r \<and>
     ResearchResultOutput.findings r = accepted_findings s \<and>
     ResearchResultOutput.evidence r = accepted_evidence s \<and>
     (accepted_findings s = [] \<longrightarrow> ResearchResultOutput.findings r = []) \<and>
     (accepted_evidence s = [] \<longrightarrow> ResearchResultOutput.evidence r = [])"
proof -
  obtain plan w1 s where
    pl: "planning T A th w = (Inr plan, w1)" and
    loop: "research_loop T A th mx plan w1 = (Inr s, w')" and
    out: "final_result = finalize s"
    using run_agentic_research_Inr [OF run] by auto
  obtain s0 w0 where
    "research_iteration T A th mx (int (length (raw_results s))) s0 w0 = (Inr (s, True), w')"
    using research_loop_last_iteration [OF loop mx] by blast
  then obtain r0 where "current_result s = Some r0"
    using research_iteration_Inr by blast
  then have "finalize s = Some (r0\<lparr>ResearchResultOutput.findings := accepted_findings s,
                        ResearchResultOutput.evidence := accepted_evidence s\<rparr>)"
    by (rule finalize_Some)
  with pl loop out show ?thesis by auto
qed

text \<open>
  Claim C10. For every run with \<open>max_iterations \<ge> 1\<close> that returns, say with \<open>n\<close> raw
  records: the loop ended with iteration \<open>n\<close>, the researcher call of that iteration
  returned \<open>r0\<close> (an answer of the researcher agent), and the last raw record was taken
  from \<open>r0\<close>. The final result is \<open>r0\<close> with only \<open>findings\<close> and \<open>evidence\<close>
  replaced: \<open>theme\<close>, \<open>plan_used\<close>, \<open>research_depth_analysis\<close>, \<open>interconnections\<close>,
  \<open>summary\<close> and \<open>iteration_number\<close> are those of \<open>r0\<close>.
\<close>

theorem finalization_changes_only_findings_and_evidence:
  assumes run: "run_agentic_research T A th mx verbose w =
                  (Inr (final_plan, final_result, evals, history, raw), w')"
    and mx: "1 \<le> mx"
  shows "\<exists>plan w1 s s0 w0 prompt r0 w2 r.
     planning T A th w = (Inr plan, w1) \<and>
     research_loop T A th mx plan w1 = (Inr s, w') \<and>
     raw \<noteq> [] \<and>
     research_iteration T A th mx (int (length raw)) s0 w0 = (Inr (s, True), w') \<and>
     researcher_prompt T th (int (length raw)) (current_plan s0) (accepted_findings s0)
        (accepted_evidence s0) (fact_check_history s0) (evaluation_values w0 s0) = Inr prompt \<and>
     run_with_retry (researcher A) prompt MAX_PARSE_RETRIES w0 = (Inr r0, w2) \<and>
     (\<exists>p u. researcher A p u = (Inr r0, w2)) \<and>
     current_result s = Some r0 \<and>
     last raw = raw_result_of (int (length raw)) r0 \<and>
     final_result = Some r \<and>
     theme r = theme r0 \<and>
     plan_used r = plan_used r0 \<and>
     research_depth_analysis r = research_depth_analysis r0 \<and>
     interconnections r = interconnections r0 \<and>
     ResearchResultOutput.summary r = ResearchResultOutput.summary r0 \<and>
     ResearchResultOutput.iteration_number r = ResearchResultOutput.iteration_number r0 \<and>
     r = r0\<lparr>ResearchResultOutput.findings := ResearchResultOutput.findings r,
            ResearchResultOutput.evidence := ResearchResultOutput.evidence r\<rparr>"
proof -
  obtain plan w1 s where
    pl: "planning T A th w = (Inr plan, w1)" and
    loop: "research_loop T A th mx plan w1 = (Inr s, w')" and
    out: "final_result = finalize s" "raw = raw_results s"
    using run_agentic_research_Inr [OF run] by auto
  obtain s0 w0 where
    ne: "raw \<noteq> []" and
    it: "research_iteration T A th mx (int (length raw)) s0 w0 = (Inr (s, True), w')"
    using research_loop_last_iteration [OF loop mx] out(2) by blast
  obtain prompt r0 w2 where
    c0: "researcher_prompt T th (int (length raw)) (current_plan s0) (accepted_findings s0)
        (accepted_evidence s0) (fact_check_history s0) (evaluation_values w0 s0) = Inr prompt" and
    c1: "run_with_retry (researcher A) prompt MAX_PARSE_RETRIES w0 = (Inr r0, w2)" and
    cr: "current_result s = Some r0" and
    rw: "raw_results s = raw_results s0 @ [raw_result_of (int (length raw)) r0]"
    using research_iteration_Inr [OF it] by (elim exE conjE) (rule that; assumption)
  have c2: "\<exists>p u. researcher A p u = (Inr r0, w2)"
    by (rule run_with_retry_Inr_from_call [OF c1])
  have "last (raw_results s) =
          last (raw_results s0 @ [raw_result_of (int (length raw)) r0])"
    using rw by (rule arg_cong)
  then have l: "last raw = raw_result_of (int (length raw)) r0" using out(2) by simp
  have f: "finalize s = Some (r0\<lparr>ResearchResultOutput.findings := accepted_findings s,
                        ResearchResultOutput.evidence := accepted_evidence s\<rparr>)"
    using cr by (rule finalize_Some)
  let ?r = "r0\<lparr>ResearchResultOutput.findings := accepted_findings s,
                ResearchResultOutput.evidence := accepted_evidence s\<rparr>"
  from pl loop ne it c0 c1 c2 cr l out(1) f show ?thesis
    by (intro exI [of _ plan] exI [of _ w1] exI [of _ s] exI [of _ s0] exI [of _ w0]
          exI [of _ prompt] exI [of _ r0] exI [of _ w2] exI [of _ ?r]) simp
qed


section \<open>Running the fixtures\<close>

lemma upto_1_1: "[1..1] = [1::int]"
  by (simp add: upto_rec1)

lemma run_with_retry_stub:
  "run prompt w = (Inr x, w') \<Longrightarrow> run_with_retry run prompt MAX_PARSE_RETRIES w = (Inr x, w')"
  by (rule run_with_retry_first_success) (simp_all add: MAX_PARSE_RETRIES_def)

lemma prompt_and_call_stub:
  "built = Inr prompt \<Longrightarrow> run prompt w = (Inr x, w') \<Longrightarrow>
   prompt_and_call built run w = (Inr x, w')"
  by (simp add: prompt_and_call_def run_with_retry_stub)

lemma T0_prompts:
  "planner_prompt T0 th = Inr (ascii ''plan: '' @ th)"
  "researcher_prompt T0 th i plan fs es history evals = Inr (ascii ''research: '' @ th)"
  "fact_check_prompt T0 result = Inr (ascii ''check'')"
  "evaluator_context T0 history evals = Inr (ascii ''history'')"
  "evaluator_prompt T0 th plan result history evals i mx ctx rate = Inr (ascii ''evaluate: '' @ th)"
  by (simp_all add: T0_def)

lemma build_evaluator_prompt_T0:
  "removal_rate_of history = Inr rate \<Longrightarrow>
   build_evaluator_prompt T0 th plan result history evals i mx = Inr (ascii ''evaluate: '' @ th)"
  by (simp add: build_evaluator_prompt_def T0_prompts)

lemma removal_rate_fixtures:
  "removal_rate_of [entry0] = Inr (Some (1 / 2))"
  "removal_rate_of [entry_none] = Inr None"
  "removal_rate_of [skipped_entry i] = Inr None"
proof -
  have "true_div 1 (max (1 + 1) 1) = Inr (real_of_int 1 / real_of_int (max (1 + 1) 1))"
    by (rule true_div_at_most_one) simp_all
  then show "removal_rate_of [entry0] = Inr (Some (1 / 2))"
    by (simp add: removal_rate_of_def entry0_def)
  show "removal_rate_of [entry_none] = Inr None"
    by (simp add: removal_rate_of_def entry_none_def)
  show "removal_rate_of [skipped_entry i] = Inr None"
    by (simp add: removal_rate_of_def skipped_entry_def)
qed

lemma world_simps:
  "outside (tick w) = Suc (outside w)"
  "evaluation_objects (tick w) = evaluation_objects w"
  "outside (evaluated refine w) = Suc (outside w)"
  "evaluation_objects (evaluated refine w) r =
     (if r = outside w then evaluation0 refine else evaluation_objects w r)"
  "outside (set_iteration_number r i w) = outside w"
  by (simp_all add: tick_def evaluated_def set_iteration_number_def)

lemma evaluation0_simps:
  "should_refine (evaluation0 r) = r" "refined_plan (evaluation0 r) = None"
  by (simp_all add: evaluation0_def)

lemma record_fact_check_fixture:
  "record_fact_check 1 result0 (Some fact_check0)
     ((initial_state plan0)\<lparr>current_result := Some result0,
                             raw_results := [raw_result_of 1 result0]\<rparr>) =
   \<lparr>current_plan = plan0, evaluations = [], current_result = Some result0,
    raw_results = [raw_result_of 1 result0], accepted_findings = [finding_a],
    accepted_evidence = [evidence_1], fact_check_history = [entry0]\<rparr>"
  by (simp add: record_fact_check_def Let_def initial_state_def verified_contents_of_def
        verified_urls_of_def add_verified_url_def merge_findings_def merge_evidence_def
        removed_reasons_of_def result0_def fact_check0_def entry0_def
        finding_a_def finding_b_def evidence_1_def evidence_2_def evidence_no_url_def ascii_def)

lemma record_fact_check_reject_fixture:
  "record_fact_check 1 result0 (Some fact_check_none)
     ((initial_state plan0)\<lparr>current_result := Some result0,
                             raw_results := [raw_result_of 1 result0]\<rparr>) =
   \<lparr>current_plan = plan0, evaluations = [], current_result = Some result0,
    raw_results = [raw_result_of 1 result0], accepted_findings = [],
    accepted_evidence = [], fact_check_history = [entry_none]\<rparr>"
  by (simp add: record_fact_check_def Let_def initial_state_def verified_contents_of_def
        verified_urls_of_def merge_findings_def merge_evidence_def
        removed_reasons_of_def fact_check_none_def entry_none_def)

lemma researcher_stub_call:
  "run_with_retry (researcher (agents0 refine)) p MAX_PARSE_RETRIES w = (Inr result0, tick w)"
  by (rule run_with_retry_stub) (simp add: agents0_def)

lemma fact_check_stub_step:
  "fact_check_step T0 (agents0 refine) result0 w = (Inr (Some fact_check0), tick w)"
proof -
  have "prompt_and_call (fact_check_prompt T0 result0) (fact_checker (agents0 refine)) w =
          (Inr fact_check0, tick w)"
    by (rule prompt_and_call_stub [OF T0_prompts(3)]) (simp add: agents0_def)
  then show ?thesis by (simp add: fact_check_step_def Let_def result0_def)
qed

lemma iteration_fixture:
  "research_iteration T0 (agents0 refine) theme0 mx 1 (initial_state plan0) w =
     (Inr (state1 (Suc (Suc (outside w))), \<not> refine \<or> mx \<le> 1),
      after_evaluation refine 1 (tick (tick w)))"
proof -
  have r: "prompt_and_call (researcher_prompt T0 a b c d e f g) (researcher (agents0 refine)) w =
             (Inr result0, tick w)" for a b c d e f g w
    by (rule prompt_and_call_stub [OF T0_prompts(2)]) (simp add: agents0_def)
  have e: "prompt_and_call
             (build_evaluator_prompt T0 th plan result [entry0] evals i mx')
             (evaluator (agents0 refine)) w = (Inr (outside w), evaluated refine w)"
    for th plan result evals i mx' w
    by (rule prompt_and_call_stub [OF build_evaluator_prompt_T0 [OF removal_rate_fixtures(1)]])
       (simp add: agents0_def fresh_evaluation_def)
  have is0: "raw_results (initial_state plan0) = []" by (simp add: initial_state_def)
  show ?thesis
    by (simp add: research_iteration_def r fact_check_stub_step e Let_def is0
          record_fact_check_fixture state1_def evaluation0_simps world_simps
          after_evaluation_def set_iteration_number_simps)
qed

lemma iteration_reject_fixture:
  "research_iteration T0 agents_reject theme0 1 1 (initial_state plan0) w =
     (Inr (state_reject (Suc (Suc (outside w))), True), after_evaluation False 1 (tick (tick w)))"
proof -
  have r: "prompt_and_call (researcher_prompt T0 a b c d e f g) (researcher agents_reject) w =
             (Inr result0, tick w)" for a b c d e f g w
    by (rule prompt_and_call_stub [OF T0_prompts(2)]) (simp add: agents_reject_def)
  have f: "prompt_and_call (fact_check_prompt T0 result0) (fact_checker agents_reject) w =
          (Inr fact_check_none, tick w)" for w
    by (rule prompt_and_call_stub [OF T0_prompts(3)]) (simp add: agents_reject_def)
  have fs: "fact_check_step T0 agents_reject result0 w = (Inr (Some fact_check_none), tick w)"
    for w
    using f [of w] by (simp add: fact_check_step_def Let_def result0_def)
  have e: "prompt_and_call
             (build_evaluator_prompt T0 th plan result [entry_none] evals i mx')
             (evaluator agents_reject) w = (Inr (outside w), evaluated False w)"
    for th plan result evals i mx' w
    by (rule prompt_and_call_stub [OF build_evaluator_prompt_T0 [OF removal_rate_fixtures(2)]])
       (simp add: agents_reject_def fresh_evaluation_def)
  have is0: "raw_results (initial_state plan0) = []" by (simp add: initial_state_def)
  show ?thesis
    by (simp add: research_iteration_def r fs e Let_def is0
          record_fact_check_reject_fixture state_reject_def evaluation0_simps world_simps
          after_evaluation_def set_iteration_number_simps)
qed

lemma iteration_empty_fixture:
  "research_iteration T0 agents_empty theme0 1 1 (initial_state plan0) w =
     (Inr (state_skipped (Suc (outside w)), True), after_evaluation False 1 (tick w))"
proof -
  have r: "prompt_and_call (researcher_prompt T0 a b c d e f g) (researcher agents_empty) w =
             (Inr result_empty, tick w)" for a b c d e f g w
    by (rule prompt_and_call_stub [OF T0_prompts(2)]) (simp add: agents_empty_def)
  have fs: "fact_check_step T0 agents_empty result_empty w = (Inr None, w)" for w
    by (simp add: fact_check_step_def Let_def result_empty_def)
  have e: "prompt_and_call
             (build_evaluator_prompt T0 th plan result [skipped_entry 1] evals i mx')
             (evaluator agents_empty) w = (Inr (outside w), evaluated False w)"
    for th plan result evals i mx' w
    by (rule prompt_and_call_stub [OF build_evaluator_prompt_T0 [OF removal_rate_fixtures(3)]])
       (simp add: agents_empty_def fresh_evaluation_def)
  have h: "fact_check_history (record_fact_check 1 result_empty None
             ((initial_state plan0)\<lparr>current_result := Some result_empty,
                raw_results := [raw_result_of 1 result_empty]\<rparr>)) = [skipped_entry 1]"
    by (simp add: record_fact_check_None initial_state_def skipped_entry_def)
  have is0: "raw_results (initial_state plan0) = []" by (simp add: initial_state_def)
  show ?thesis
    by (simp add: research_iteration_def r fs Let_def is0 h e evaluation0_simps world_simps
          after_evaluation_def set_iteration_number_simps)
       (simp add: record_fact_check_None state_skipped_def skipped_entry_def initial_state_def)
qed

lemma strip_space: "strip (ascii '' '') = []" "strip [] = []"
  by (simp_all add: strip_def isspace_def ascii_def)

lemma planning_fixture:
  "planner A = (\<lambda>prompt w. (Inr plan0, tick w)) \<Longrightarrow>
   input A = (\<lambda>w. (Inr line, w)) \<Longrightarrow> strip line = [] \<Longrightarrow>
   planning T0 A theme0 w = (Inr plan0, tick w)"
  by (simp add: planning_def prompt_and_call_def T0_prompts run_with_retry_stub Let_def)

lemma after_evaluation_objects:
  "evaluation_objects (after_evaluation refine i w) r =
     (if r = outside w then (evaluation0 refine)\<lparr>EvaluationOutput.iteration_number := i\<rparr>
      else evaluation_objects w r)"
  by (simp add: after_evaluation_def set_iteration_number_def evaluated_def tick_def)

lemma world0_simps:
  "outside world0 = 0" "evaluation_objects world0 r = evaluation0 True"
  by (simp_all add: world0_def)

lemma run_fixture:
  "run_agentic_research T0 (agents0 False) theme0 1 True world0 =
     (Inr (plan0, Some final0, [(evaluation0 False)\<lparr>EvaluationOutput.iteration_number := 1\<rparr>],
           [entry0], [raw_result_of 1 result0]),
      after_evaluation False 1 (tick (tick (tick world0))))"
proof -
  have p: "planning T0 (agents0 False) theme0 world0 = (Inr plan0, tick world0)"
    by (rule planning_fixture [of _ "ascii '' ''"]) (simp_all add: agents0_def strip_space)
  have l: "research_loop T0 (agents0 False) theme0 1 plan0 (tick world0) =
             (Inr (state1 3), after_evaluation False 1 (tick (tick (tick world0))))"
    by (simp add: research_loop_def upto_1_1 iteration_fixture world_simps world0_simps
          eval_nat_numeral)
  show ?thesis
    by (simp add: run_agentic_research_def p l finalize_def state1_def final0_def
          evaluation_values_def after_evaluation_objects world_simps world0_simps
          eval_nat_numeral)
qed

lemma run_reject_fixture:
  "run_agentic_research T0 agents_reject theme0 1 True world0 =
     (Inr (plan0, Some final_reject,
           [(evaluation0 False)\<lparr>EvaluationOutput.iteration_number := 1\<rparr>], [entry_none],
           [raw_result_of 1 result0]),
      after_evaluation False 1 (tick (tick (tick world0))))"
proof -
  have p: "planning T0 agents_reject theme0 world0 = (Inr plan0, tick world0)"
    by (rule planning_fixture [of _ "[]"]) (simp_all add: agents_reject_def strip_space)
  have l: "research_loop T0 agents_reject theme0 1 plan0 (tick world0) =
             (Inr (state_reject 3), after_evaluation False 1 (tick (tick (tick world0))))"
    by (simp add: research_loop_def upto_1_1 iteration_reject_fixture world_simps world0_simps
          eval_nat_numeral)
  show ?thesis
    by (simp add: run_agentic_research_def p l finalize_def state_reject_def final_reject_def
          evaluation_values_def after_evaluation_objects world_simps world0_simps
          eval_nat_numeral)
qed

theorem accepted_items_come_from_researcher_output_witness:
  "research_iteration T0 (agents0 False) theme0 1 1 (initial_state plan0) world0 =
     (Inr (state1 2, True), after_evaluation False 1 (tick (tick world0))) \<and>
   accepted_findings (state1 2) = [finding_a] \<and>
   accepted_evidence (state1 2) = [evidence_1] \<and>
   finding_a \<in> set (ResearchResultOutput.findings result0) \<and>
   evidence_1 \<in> set (ResearchResultOutput.evidence result0) \<and>
   take 80 (Finding.content finding_a) \<in> verified_contents_of fact_check0 \<and>
   Evidence.url evidence_1 \<in> verified_urls_of fact_check0 \<and>
   Evidence.url evidence_1 \<noteq> VerifiedEvidence.url (hd (verified_evidences fact_check0))"
proof -
  have it: "research_iteration T0 (agents0 False) theme0 1 1 (initial_state plan0) world0 =
     (Inr (state1 2, True), after_evaluation False 1 (tick (tick world0)))"
    using iteration_fixture [of False 1 world0] by (simp add: world0_simps eval_nat_numeral)
  obtain prompt result w1 fact_check w2 nf ne where
    c1: "run_with_retry (researcher (agents0 False)) prompt MAX_PARSE_RETRIES world0 =
           (Inr result, w1)" and
    c2: "fact_check_step T0 (agents0 False) result w1 = (Inr fact_check, w2)" and
    af: "accepted_findings (state1 2) = accepted_findings (initial_state plan0) @ nf" and
    ae: "accepted_evidence (state1 2) = accepted_evidence (initial_state plan0) @ ne" and
    f: "\<forall>f\<in>set nf. f \<in> set (ResearchResultOutput.findings result) \<and>
        (\<exists>fc. fact_check = Some fc \<and> take 80 (Finding.content f) \<in> verified_contents_of fc)" and
    e: "\<forall>e\<in>set ne. e \<in> set (ResearchResultOutput.evidence result) \<and>
        (\<exists>fc. fact_check = Some fc \<and> Evidence.url e \<in> verified_urls_of fc) \<and>
        (\<exists>e0\<in>set (RawResult.evidence (raw_result_of 1 result)). Evidence.url e = Evidence.url e0)"
    using accepted_items_come_from_researcher_output [OF it]
    by (elim exE conjE) (rule that; assumption)
  have r: "result = result0" "w1 = tick world0" using c1 by (simp_all add: researcher_stub_call)
  have fc: "fact_check = Some fact_check0" using c2 r by (simp add: fact_check_stub_step)
  have nf: "nf = [finding_a]" using af by (simp add: state1_def initial_state_def)
  have ne: "ne = [evidence_1]" using ae by (simp add: state1_def initial_state_def)
  have u: "Evidence.url evidence_1 \<noteq> VerifiedEvidence.url (hd (verified_evidences fact_check0))"
    by (simp add: evidence_1_def fact_check0_def ascii_def)
  from it f e r fc nf ne u show ?thesis by (simp add: state1_def)
qed

text \<open>
  Claim C3, as stated, fails: the history entry takes \<open>reliability\<close> from the
  \<open>reliability_score\<close> field of the verdict and does not compute it from the two counts.
  With the verdict \<open>fact_check0\<close> (one verified, one removed, reliability 1, which the
  schema accepts) the entry has reliability 1, not 1/2.
\<close>

theorem reliability_is_not_recomputed_counterexample:
  "research_iteration T0 (agents0 False) theme0 1 1 (initial_state plan0) world0 =
     (Inr (state1 2, True), after_evaluation False 1 (tick (tick world0))) \<and>
   fact_check_step T0 (agents0 False) result0 (tick world0) =
     (Inr (Some fact_check0), tick (tick world0)) \<and>
   valid_FactCheckResultOutput fact_check0 \<and>
   total_verified fact_check0 = 1 \<and> total_removed fact_check0 = 1 \<and>
   verified (last (fact_check_history (state1 2))) = 1 \<and>
   removed (last (fact_check_history (state1 2))) = 1 \<and>
   reliability (last (fact_check_history (state1 2))) \<noteq>
     real_of_int (verified (last (fact_check_history (state1 2)))) /
     real_of_int (max (verified (last (fact_check_history (state1 2))) +
                       removed (last (fact_check_history (state1 2)))) 1)"
proof -
  have it: "research_iteration T0 (agents0 False) theme0 1 1 (initial_state plan0) world0 =
     (Inr (state1 2, True), after_evaluation False 1 (tick (tick world0)))"
    using iteration_fixture [of False 1 world0] by (simp add: world0_simps eval_nat_numeral)
  show ?thesis
    using it fact_check_stub_step [of False "tick world0"]
    by (simp add: state1_def entry0_def fact_check0_def valid_FactCheckResultOutput_def)
qed

theorem history_entry_copies_fact_check_scores_witness:
  "research_iteration T0 (agents0 False) theme0 1 1 (initial_state plan0) world0 =
     (Inr (state1 2, True), after_evaluation False 1 (tick (tick world0))) \<and>
   fact_check_history (state1 2) = [entry0] \<and>
   verified entry0 = total_verified fact_check0 \<and>
   removed entry0 = total_removed fact_check0 \<and>
   reliability entry0 = reliability_score fact_check0 \<and>
   valid_FactCheckResultOutput fact_check0 \<and>
   0 \<le> reliability entry0 \<and> reliability entry0 \<le> 1"
proof -
  have it: "research_iteration T0 (agents0 False) theme0 1 1 (initial_state plan0) world0 =
     (Inr (state1 2, True), after_evaluation False 1 (tick (tick world0)))"
    using iteration_fixture [of False 1 world0] by (simp add: world0_simps eval_nat_numeral)
  obtain prompt result w1 fact_check w2 entry where
    c1: "run_with_retry (researcher (agents0 False)) prompt MAX_PARSE_RETRIES world0 =
           (Inr result, w1)" and
    c2: "fact_check_step T0 (agents0 False) result w1 = (Inr fact_check, w2)" and
    h: "fact_check_history (state1 2) = fact_check_history (initial_state plan0) @ [entry]" and
    sc: "\<forall>fc. fact_check = Some fc \<longrightarrow>
        (\<exists>fprompt. fact_check_prompt T0 result = Inr fprompt \<and>
           run_with_retry (fact_checker (agents0 False)) fprompt MAX_PARSE_RETRIES w1 =
             (Inr fc, w2)) \<and>
        verified entry = total_verified fc \<and>
        removed entry = total_removed fc \<and>
        reliability entry = reliability_score fc \<and>
        (valid_FactCheckResultOutput fc \<longrightarrow> 0 \<le> reliability entry \<and> reliability entry \<le> 1)"
    using history_entry_copies_fact_check_scores [OF it]
    by (elim exE conjE) (rule that; assumption)
  have r: "result = result0" "w1 = tick world0" using c1 by (simp_all add: researcher_stub_call)
  have fc: "fact_check = Some fact_check0" using c2 r by (simp add: fact_check_stub_step)
  have en: "entry = entry0" using h by (simp add: state1_def initial_state_def)
  have v: "valid_FactCheckResultOutput fact_check0"
    by (simp add: valid_FactCheckResultOutput_def fact_check0_def)
  from it sc fc en v show ?thesis by (simp add: state1_def)
qed

theorem empty_researcher_output_skips_fact_check_witness:
  "fact_check_step T0 agents_empty result_empty (tick world0) = (Inr None, tick world0) \<and>
   research_iteration T0 agents_empty theme0 1 1 (initial_state plan0) world0 =
     (Inr (state_skipped 1, True), after_evaluation False 1 (tick world0)) \<and>
   research_iteration T0 (agents_empty\<lparr>fact_checker := fact_checker (agents0 False)\<rparr>) theme0 1 1
       (initial_state plan0) world0 =
     (Inr (state_skipped 1, True), after_evaluation False 1 (tick world0)) \<and>
   fact_check_history (state_skipped 1) =
     [\<lparr>FactCheckEntry.iteration = 1, verified = 0, removed = 0, reliability = 0,
       removed_reasons = [],
       summary = [12501, 12449, 12463, 12488, 12481, 12455, 12483, 12463, 12434, 12473, 12461,
          12483, 12503, 65288, 101, 118, 105, 100, 101, 110, 99, 101, 47, 102, 105, 110,
          100, 105, 110, 103, 115, 12364, 31354, 65289]\<rparr>] \<and>
   accepted_findings (state_skipped 1) = [] \<and> accepted_evidence (state_skipped 1) = []"
proof -
  have it: "research_iteration T0 agents_empty theme0 1 1 (initial_state plan0) world0 =
     (Inr (state_skipped 1, True), after_evaluation False 1 (tick world0))"
    using iteration_empty_fixture [of world0] by (simp add: world0_simps)
  have c0: "researcher_prompt T0 theme0 1 (current_plan (initial_state plan0))
        (accepted_findings (initial_state plan0)) (accepted_evidence (initial_state plan0))
        (fact_check_history (initial_state plan0))
        (evaluation_values world0 (initial_state plan0)) = Inr (ascii ''research: '' @ theme0)"
    by (rule T0_prompts)
  have c1: "run_with_retry (researcher agents_empty) (ascii ''research: '' @ theme0)
        MAX_PARSE_RETRIES world0 = (Inr result_empty, tick world0)"
    by (rule run_with_retry_stub) (simp add: agents_empty_def)
  have f: "ResearchResultOutput.findings result_empty = []"
    and e: "ResearchResultOutput.evidence result_empty = []"
    by (simp_all add: result_empty_def)
  show ?thesis
    using empty_researcher_output_skips_fact_check [OF c0 c1 f e, of 1] it
    by (auto simp: initial_state_def)
qed









theorem final_result_holds_accumulated_pools_witness:
  "run_agentic_research T0 (agents0 False) theme0 1 True world0 =
     (Inr (plan0, Some final0, [(evaluation0 False)\<lparr>EvaluationOutput.iteration_number := 1\<rparr>],
           [entry0], [raw_result_of 1 result0]),
      after_evaluation False 1 (tick (tick (tick world0)))) \<and>
   research_loop T0 (agents0 False) theme0 1 plan0 (tick world0) =
     (Inr (state1 3), after_evaluation False 1 (tick (tick (tick world0)))) \<and>
   ResearchResultOutput.findings final0 = accepted_findings (state1 3) \<and>
   ResearchResultOutput.evidence final0 = accepted_evidence (state1 3) \<and>
   length (ResearchResultOutput.findings result0) = 2 \<and>
   length (ResearchResultOutput.findings final0) = 1 \<and>
   run_agentic_research T0 agents_reject theme0 1 True world0 =
     (Inr (plan0, Some final_reject,
           [(evaluation0 False)\<lparr>EvaluationOutput.iteration_number := 1\<rparr>], [entry_none],
           [raw_result_of 1 result0]),
      after_evaluation False 1 (tick (tick (tick world0)))) \<and>
   ResearchResultOutput.findings final_reject = [] \<and>
   ResearchResultOutput.evidence final_reject = []"
proof -
  have mx: "(1::int) \<le> 1" by simp
  have p: "planning T0 (agents0 False) theme0 world0 = (Inr plan0, tick world0)"
    by (rule planning_fixture [of _ "ascii '' ''"]) (simp_all add: agents0_def strip_space)
  have l: "research_loop T0 (agents0 False) theme0 1 plan0 (tick world0) =
             (Inr (state1 3), after_evaluation False 1 (tick (tick (tick world0))))"
    by (simp add: research_loop_def upto_1_1 iteration_fixture world_simps world0_simps
          eval_nat_numeral)
  have p': "planning T0 agents_reject theme0 world0 = (Inr plan0, tick world0)"
    by (rule planning_fixture [of _ "[]"]) (simp_all add: agents_reject_def strip_space)
  have l': "research_loop T0 agents_reject theme0 1 plan0 (tick world0) =
             (Inr (state_reject 3), after_evaluation False 1 (tick (tick (tick world0))))"
    by (simp add: research_loop_def upto_1_1 iteration_reject_fixture world_simps world0_simps
          eval_nat_numeral)
  have a: "ResearchResultOutput.findings final0 = accepted_findings (state1 3) \<and>
           ResearchResultOutput.evidence final0 = accepted_evidence (state1 3)"
    using final_result_holds_accumulated_pools [OF run_fixture mx] p l by auto
  have b: "ResearchResultOutput.findings final_reject = accepted_findings (state_reject 3) \<and>
           ResearchResultOutput.evidence final_reject = accepted_evidence (state_reject 3)"
    using final_result_holds_accumulated_pools [OF run_reject_fixture mx] p' l' by auto
  have c: "accepted_findings (state_reject 3) = []" "accepted_evidence (state_reject 3) = []"
    by (simp_all add: state_reject_def)
  have d: "length (ResearchResultOutput.findings result0) = 2"
          "length (accepted_findings (state1 3)) = 1"
    by (simp_all add: result0_def state1_def)
  from a b c d l show ?thesis using run_fixture run_reject_fixture by simp
qed

theorem finalization_changes_only_findings_and_evidence_witness:
  "run_agentic_research T0 (agents0 False) theme0 1 True world0 =
     (Inr (plan0, Some final0, [(evaluation0 False)\<lparr>EvaluationOutput.iteration_number := 1\<rparr>],
           [entry0], [raw_result_of 1 result0]),
      after_evaluation False 1 (tick (tick (tick world0)))) \<and>
   researcher (agents0 False) (ascii ''research: '' @ theme0) (tick world0) =
     (Inr result0, tick (tick world0)) \<and>
   theme final0 = theme result0 \<and>
   plan_used final0 = plan_used result0 \<and>
   research_depth_analysis final0 = research_depth_analysis result0 \<and>
   interconnections final0 = interconnections result0 \<and>
   ResearchResultOutput.summary final0 = ResearchResultOutput.summary result0 \<and>
   ResearchResultOutput.iteration_number final0 = ResearchResultOutput.iteration_number result0 \<and>
   ResearchResultOutput.findings final0 \<noteq> ResearchResultOutput.findings result0"
proof -
  have mx: "(1::int) \<le> 1" by simp
  obtain r0 r p and u w2 :: "nat world" where
    c: "researcher (agents0 False) p u = (Inr r0, w2)" and
    f: "Some final0 = Some r" and
    g: "theme r = theme r0" "plan_used r = plan_used r0"
       "research_depth_analysis r = research_depth_analysis r0"
       "interconnections r = interconnections r0"
       "ResearchResultOutput.summary r = ResearchResultOutput.summary r0"
       "ResearchResultOutput.iteration_number r = ResearchResultOutput.iteration_number r0"
    using finalization_changes_only_findings_and_evidence [OF run_fixture mx]
    by (elim exE conjE) (rule that; assumption)
  have r0: "r0 = result0" using c by (auto simp: agents0_def)
  have r: "r = final0" using f by simp
  have s: "researcher (agents0 False) (ascii ''research: '' @ theme0) (tick world0) =
     (Inr result0, tick (tick world0))"
    by (simp add: agents0_def)
  have d: "ResearchResultOutput.findings final0 \<noteq> ResearchResultOutput.findings result0"
    by (simp add: final0_def result0_def)
  from g s d show ?thesis unfolding r0 r using run_fixture by simp
qed

text \<open>
  An evaluator that answers with one and the same object every time: the three
  evaluations of a three-iteration run are that object, which carries the number
  written last.
\<close>

lemma iteration_same_fixture:
  assumes "should_refine (evaluation_objects w 0)"
    and "refined_plan (evaluation_objects w 0) = None"
  shows "research_iteration T0 agents_same theme0 3 i s w =
     (Inr (s\<lparr>evaluations := evaluations s @ [0],
             current_result := Some result_empty,
             raw_results := raw_results s @ [raw_result_of i result_empty],
             fact_check_history := fact_check_history s @ [skipped_entry i]\<rparr>, 3 \<le> i),
      set_iteration_number 0 i (tick (tick w)))"
proof -
  have r: "prompt_and_call (researcher_prompt T0 a b c d e f g) (researcher agents_same) w =
             (Inr result_empty, tick w)" for a b c d e f g w
    by (rule prompt_and_call_stub [OF T0_prompts(2)]) (simp add: agents_same_def)
  have fs: "fact_check_step T0 agents_same result_empty w = (Inr None, w)" for w
    by (simp add: fact_check_step_def Let_def result_empty_def)
  have rr: "removal_rate_of (h @ [skipped_entry i]) = Inr None" for h
    by (simp add: removal_rate_of_def skipped_entry_def)
  have e: "prompt_and_call
             (build_evaluator_prompt T0 th plan result (h @ [skipped_entry i]) evals j mx')
             (evaluator agents_same) w = (Inr 0, tick w)"
    for th plan result evals j mx' w h
    by (rule prompt_and_call_stub [OF build_evaluator_prompt_T0 [OF rr]])
       (simp add: agents_same_def same_evaluation_def)
  have h: "record_fact_check i result_empty None s' =
             s'\<lparr>fact_check_history := fact_check_history s' @ [skipped_entry i]\<rparr>" for s'
    by (simp add: record_fact_check_None skipped_entry_def)
  show ?thesis
    using assms
    by (simp add: research_iteration_def r fs Let_def h e world_simps
          set_iteration_number_simps)
qed

text \<open>
  With the evaluator that returns the same object in every iteration, a run of three
  iterations returns that object three times, and each time it carries the number 3.
\<close>

lemma same_object_carries_last_number:
  "map EvaluationOutput.iteration_number
     (fst (snd (snd (projr (fst (run_agentic_research T0 agents_same theme0 3 False world0))))))
   = [3, 3, 3]"
proof -
  have p: "planning T0 agents_same theme0 world0 = (Inr plan0, tick world0)"
    by (rule planning_fixture [of _ "[]"]) (simp_all add: agents_same_def strip_space)
  have u: "[1..3] = [1, 2, 3::int]" by (simp add: upto_rec1)
  let ?w1 = "set_iteration_number 0 1 (tick (tick (tick world0)))"
  let ?w2 = "set_iteration_number 0 2 (tick (tick ?w1))"
  let ?w3 = "set_iteration_number 0 3 (tick (tick ?w2))"
  have ok: "should_refine (evaluation_objects (tick world0) 0)"
      "refined_plan (evaluation_objects (tick world0) 0) = None"
      "should_refine (evaluation_objects ?w1 0)"
      "refined_plan (evaluation_objects ?w1 0) = None"
      "should_refine (evaluation_objects ?w2 0)"
      "refined_plan (evaluation_objects ?w2 0) = None"
    by (simp_all add: set_iteration_number_simps world_simps world0_simps evaluation0_simps)
  have "\<exists>s. research_loop T0 agents_same theme0 3 plan0 (tick world0) = (Inr s, ?w3) \<and>
          evaluations s = [0, 0, 0]"
    by (simp add: research_loop_def u iteration_same_fixture [OF ok(1,2)]
          iteration_same_fixture [OF ok(3,4)] iteration_same_fixture [OF ok(5,6)]
          initial_state_def)
  then obtain s where l: "research_loop T0 agents_same theme0 3 plan0 (tick world0) = (Inr s, ?w3)"
      and ev: "evaluations s = [0, 0, 0]"
    by blast
  have n: "EvaluationOutput.iteration_number (evaluation_objects ?w3 0) = 3"
    by (simp add: set_iteration_number_simps)
  show ?thesis
    using n by (simp add: run_agentic_research_def p l evaluation_values_def ev)
qed


end
